theory Spec2Isabelle
  imports Main
begin

section \<open>pyrestful/rest.py: registration and dispatch of REST operations\<close>

text \<open>
  The development embeds \<^verbatim>\<open>src/pyrestful/rest.py\<close>: the decorator \<^verbatim>\<open>config\<close> that
  turns an annotated method into an operation, and \<^verbatim>\<open>RestHandler._exe\<close> with its helpers,
  which dispatches one request over the operations of a handler.

  The embedding follows Python 3: the re-raise at the end of \<^verbatim>\<open>_exe\<close> uses
  \<^verbatim>\<open>with_traceback\<close> and \<^verbatim>\<open>__traceback__\<close>, which only Python 3 has, and
  \<^verbatim>\<open>map\<close> over two lists is wrapped in \<^verbatim>\<open>list(...)\<close>. Strings are ASCII
  \<^typ>\<open>string\<close>s, Python's \<^verbatim>\<open>None\<close> in a list of raw values is \<^term>\<open>None\<close>.
\<close>

subsection \<open>Python values, exceptions and the calls made on the response\<close>

text \<open>
  What a handler method returns and receives. \<open>PDocument\<close> is an
  \<^verbatim>\<open>xml.dom.minidom.Document\<close>, carried as the text its \<^verbatim>\<open>toxml()\<close> gives;
  \<open>PObject\<close> is any other object.
\<close>

datatype pyval =
    PNone
  | PStr string
  | PInt int
  | PDict "(string \<times> pyval) list"
  | PList "pyval list"
  | PDocument string
  | PObject string

text \<open>
  The values the json library can encode: \<^verbatim>\<open>None\<close>, strings, integers, and
  dicts and lists of such values. For any other value \<^verbatim>\<open>json.dumps\<close> raises
  \<^verbatim>\<open>TypeError\<close>.
\<close>

fun json_encodable :: "pyval \<Rightarrow> bool" where
  "json_encodable PNone = True"
| "json_encodable (PStr s) = True"
| "json_encodable (PInt n) = True"
| "json_encodable (PDict d) = list_all json_encodable (map snd d)"
| "json_encodable (PList xs) = list_all json_encodable xs"
| "json_encodable (PDocument xml) = False"
| "json_encodable (PObject name) = False"

text \<open>
  The type objects of \<^verbatim>\<open>_types\<close>. Modelled from the spec: the module
  \<^verbatim>\<open>pyrestful/types.py\<close> is not among the sources; of the semantic types the spec names
  (integer, float, boolean, string) the model keeps string and integer, the two whose
  parse the spec fixes.
\<close>

datatype ptype = TStr | TInt

text \<open>
  Exceptions. \<open>Exception_with_traceback e\<close> is the object
  \<^verbatim>\<open>Exception().with_traceback(e.__traceback__)\<close>: a fresh \<^verbatim>\<open>Exception\<close> that
  carries the traceback of \<open>e\<close>. \<open>AppError\<close> is any other exception a handler method
  raises. \<open>ConversionError\<close> is what \<^verbatim>\<open>types.convert\<close> raises on a value it cannot
  parse.
\<close>

datatype exn =
    HTTPError int string
  | PyRestfulException string
  | KeyError string
  | TypeError
  | IndexError
  | RuntimeError
  | ConversionError
  | AppError string
  | Exception_with_traceback exn

text \<open>
  The response is the sequence of calls the dispatcher makes on the Tornado
  \<^verbatim>\<open>RequestHandler\<close> it extends, oldest first, together with the calls of handler
  methods. \<open>Write (WDict d)\<close> is \<^verbatim>\<open>self.write(d)\<close> for a dict, which the transport sends
  as a JSON object; \<open>WJson xs\<close> is the string \<^verbatim>\<open>json.dumps(xs)\<close>. The text of an
  encoding belongs to the json library and is kept symbolic; whether a value can be encoded
  is \<^const>\<open>json_encodable\<close>. Console output (\<^verbatim>\<open>print\<close>,
  \<^verbatim>\<open>traceback.print_exc\<close>) is not part of the response and is left out.
\<close>

datatype chunk = WDict "(string \<times> pyval) list" | WJson "pyval list" | WStr string

datatype event =
    Call string "pyval list"
  | SetHeader string string
  | Write chunk
  | Finish
  | Clear
  | SetStatus int

type_synonym trace = "event list"

text \<open>
  Tornado's \<^verbatim>\<open>RequestHandler\<close>: \<^verbatim>\<open>write\<close> and \<^verbatim>\<open>finish\<close> raise
  \<^verbatim>\<open>RuntimeError\<close> once the response is finished; \<^verbatim>\<open>write\<close> of a dict encodes
  it with the json library and raises \<^verbatim>\<open>TypeError\<close> when that cannot be done;
  \<^verbatim>\<open>clear\<close>, \<^verbatim>\<open>set_status\<close> and \<^verbatim>\<open>set_header\<close> always succeed. A call
  that raises leaves the trace as it was.
\<close>

definition finished :: "trace \<Rightarrow> bool" where
  "finished tr = (Finish \<in> set tr)"

definition self_write :: "chunk \<Rightarrow> trace \<Rightarrow> (exn + unit) \<times> trace" where
  "self_write c tr =
     (if finished tr then (Inl RuntimeError, tr)
      else (case c of
              WDict d \<Rightarrow>
                (if json_encodable (PDict d) then (Inr (), tr @ [Write c])
                 else (Inl TypeError, tr))
            | _ \<Rightarrow> (Inr (), tr @ [Write c])))"

definition self_finish :: "trace \<Rightarrow> (exn + unit) \<times> trace" where
  "self_finish tr = (if finished tr then (Inl RuntimeError, tr) else (Inr (), tr @ [Finish]))"

definition write_and_finish :: "chunk \<Rightarrow> trace \<Rightarrow> (exn + unit) \<times> trace" where
  "write_and_finish c tr =
     (case self_write c tr of
        (Inl e, tr1) \<Rightarrow> (Inl e, tr1)
      | (Inr u, tr1) \<Rightarrow> self_finish tr1)"

subsection \<open>Requests and operations\<close>

text \<open>
  \<^verbatim>\<open>self.request\<close>: the verb, the path and the query arguments, a dict from a name to
  the list of its raw values, kept as an association list.
\<close>

record request =
  req_method :: string
  req_path :: string
  req_arguments :: "(string \<times> string list) list"

text \<open>
  A decorated method: its name, the argument names \<^verbatim>\<open>inspect.getargspec\<close> reports
  (the receiver first), how many of them, counted from the last, have a default value,
  whether the signature ends in \<^verbatim>\<open>*args\<close>, and its body: from the positional values
  it is called with (the receiver left out) to the value it returns or the exception it
  raises. What the method itself may do to the response is not modelled.
\<close>

record pyfunc =
  fn_name :: string
  fn_args :: "string list"
  fn_defaults :: nat
  fn_varargs :: bool
  fn_body :: "pyval list \<Rightarrow> exn + pyval"

text \<open>
  The attributes \<^verbatim>\<open>config\<close> sets on an operation (\<^verbatim>\<open>_func_params\<close>,
  \<^verbatim>\<open>_types\<close>, \<^verbatim>\<open>_service_name\<close>, ...) and the decorated method that the
  wrapper \<^verbatim>\<open>operation\<close> closes over, \<open>op_func\<close>. A slot of \<^verbatim>\<open>_types\<close> may hold
  \<^verbatim>\<open>None\<close>.
\<close>

record operation =
  op_name :: string
  op_func_params :: "string list"
  op_types :: "ptype option list"
  op_service_name :: "string list"
  op_service_params :: "string list"
  op_method :: string
  op_produces :: string
  op_consumes :: "string option"
  op_query_params :: "string list"
  op_path :: string
  op_is_coroutine :: bool
  op_func :: pyfunc

text \<open>
  Modelled from the spec: the constants of \<^verbatim>\<open>pyrestful/mediatypes.py\<close>, which is not
  among the sources; the spec gives the three values.
\<close>

definition APPLICATION_JSON :: string where
  "APPLICATION_JSON = ''application/json''"

definition APPLICATION_XML :: string where
  "APPLICATION_XML = ''application/xml''"

definition TEXT_XML :: string where
  "TEXT_XML = ''text/xml''"

subsection \<open>Strings: \<^verbatim>\<open>str.split\<close> and \<^verbatim>\<open>re.findall\<close>\<close>

text \<open>\<^verbatim>\<open>s.split(sep)\<close> for a separator of one character: never empty.\<close>

fun str_split :: "char \<Rightarrow> string \<Rightarrow> string list" where
  "str_split sep [] = [[]]"
| "str_split sep (c # cs) =
     (if c = sep then [] # str_split sep cs
      else (case str_split sep cs of
              [] \<Rightarrow> [[c]]
            | x # xs \<Rightarrow> (c # x) # xs))"

text \<open>The class \<^verbatim>\<open>\w\<close> on ASCII: letters, digits and the underscore.\<close>

definition word_char :: "char \<Rightarrow> bool" where
  "word_char c =
     (c \<in> set ''abcdefghijklmnopqrstuvwxyzABCDEFGHIJKLMNOPQRSTUVWXYZ0123456789_'')"

text \<open>
  \<^verbatim>\<open>re.findall(r"(?<=m)\w+", s)\<close> for a marker \<open>m\<close> outside \<^verbatim>\<open>\w\<close> (the source
  uses \<^verbatim>\<open>/\<close>, \<^verbatim>\<open>{\<close> and \<^verbatim>\<open><\<close>): the longest runs of word characters that
  start right after a marker, left to right. The scan goes on after a run, where the
  next character is no word character.
\<close>

function findall_after :: "char \<Rightarrow> string \<Rightarrow> string list" where
  "findall_after m [] = []"
| "findall_after m (c # cs) =
     (if c = m \<and> takeWhile word_char cs \<noteq> []
      then takeWhile word_char cs # findall_after m (dropWhile word_char cs)
      else findall_after m cs)"
  by pat_completeness auto
termination
  by (relation "measure (\<lambda>(m, s). length s)")
     (auto simp: length_dropWhile_le less_Suc_eq_le)

text \<open>\<^verbatim>\<open>_list_from_filter\<close>: both branches of the source give the filtered list.\<close>

definition list_from_filter :: "('a \<Rightarrow> bool) \<Rightarrow> 'a list \<Rightarrow> 'a list" where
  "list_from_filter f iterable = filter f iterable"

subsection \<open>The decorator \<^verbatim>\<open>config\<close>\<close>

text \<open>
  The keyword arguments a decorator passes on, each present or absent. Keyword arguments
  outside these five are not modelled.
\<close>

record kwparams =
  kw_path :: "string option"
  kw_produces :: "string option"
  kw_consumes :: "string option"
  kw_types :: "ptype option list option"
  kw_coroutine :: "bool option"

definition kw_len :: "kwparams \<Rightarrow> nat" where
  "kw_len kw =
     (if kw_path kw = None then 0 else 1) + (if kw_produces kw = None then 0 else 1) +
     (if kw_consumes kw = None then 0 else 1) + (if kw_types kw = None then 0 else 1) +
     (if kw_coroutine kw = None then 0 else 1)"

text \<open>
  The first half of \<^verbatim>\<open>config\<close>: the locals \<^verbatim>\<open>path\<close>, \<^verbatim>\<open>produces\<close>,
  \<^verbatim>\<open>consumes\<close>, \<^verbatim>\<open>types\<close> and \<^verbatim>\<open>is_coroutine\<close>. With keyword arguments
  but no \<^verbatim>\<open>_path\<close> the lookup raises \<^verbatim>\<open>KeyError\<close>.
\<close>

definition config_locals ::
  "kwparams \<Rightarrow> exn + (string option \<times> string option \<times> string option \<times>
     ptype option list option \<times> bool)" where
  "config_locals kw =
     (if kw_len kw \<noteq> 0 then
        (case kw_path kw of
           None \<Rightarrow> Inl (KeyError ''_path'')
         | Some p \<Rightarrow>
             Inr (Some p,
                  (case kw_produces kw of Some pr \<Rightarrow> Some pr | None \<Rightarrow> Some APPLICATION_JSON),
                  kw_consumes kw,
                  kw_types kw,
                  kwparams.kw_coroutine kw = Some True))
      else Inr (None, None, None, None, False))"

text \<open>
  The second half: the attributes and the check of the produced media type.
  \<^verbatim>\<open>re.findall\<close> on a path that is \<^verbatim>\<open>None\<close> raises \<^verbatim>\<open>TypeError\<close>, before the
  check is reached. \<^verbatim>\<open>types or [str]*n\<close> takes the default for \<^verbatim>\<open>None\<close> and for
  the empty list.
\<close>

definition config :: "pyfunc \<Rightarrow> string \<Rightarrow> kwparams \<Rightarrow> exn + operation" where
  "config func verb kw =
     (case config_locals kw of
        Inl e \<Rightarrow> Inl e
      | Inr (path, produces, consumes, types, is_coroutine) \<Rightarrow>
          (case path of
             None \<Rightarrow> Inl TypeError
           | Some p \<Rightarrow>
               (let func_params = tl (fn_args func);
                    operation = \<lparr>
                      op_name = fn_name func,
                      op_func_params = func_params,
                      op_types = (case types of
                                    None \<Rightarrow> replicate (length func_params) (Some TStr)
                                  | Some [] \<Rightarrow> replicate (length func_params) (Some TStr)
                                  | Some ts \<Rightarrow> ts),
                      op_service_name = findall_after CHR ''/'' p,
                      op_service_params = findall_after CHR ''{'' p,
                      op_method = verb,
                      op_produces = (case produces of Some pr \<Rightarrow> pr | None \<Rightarrow> []),
                      op_consumes = consumes,
                      op_query_params = findall_after CHR ''<'' p,
                      op_path = p,
                      op_is_coroutine = is_coroutine,
                      op_func = func \<rparr>
                in if produces \<notin> set [Some APPLICATION_JSON, Some APPLICATION_XML, Some TEXT_XML]
                   then Inl (PyRestfulException
                               (''The media type used do not exist : '' @ fn_name func))
                   else Inr operation)))"

text \<open>The four decorators.\<close>

definition get :: "kwparams \<Rightarrow> pyfunc \<Rightarrow> exn + operation" where
  "get kw f = config f ''GET'' kw"

definition post :: "kwparams \<Rightarrow> pyfunc \<Rightarrow> exn + operation" where
  "post kw f = config f ''POST'' kw"

definition put :: "kwparams \<Rightarrow> pyfunc \<Rightarrow> exn + operation" where
  "put kw f = config f ''PUT'' kw"

definition delete :: "kwparams \<Rightarrow> pyfunc \<Rightarrow> exn + operation" where
  "delete kw f = config f ''DELETE'' kw"

subsection \<open>The helpers of \<^verbatim>\<open>RestHandler\<close>\<close>

text \<open>
  \<^verbatim>\<open>gen_http_error\<close>: \<^verbatim>\<open>clear\<close>, \<^verbatim>\<open>set_status\<close>, \<^verbatim>\<open>write\<close> of the message
  wrapped in HTML, \<^verbatim>\<open>finish\<close>.
\<close>

definition gen_http_error :: "int \<Rightarrow> string \<Rightarrow> trace \<Rightarrow> (exn + unit) \<times> trace" where
  "gen_http_error status msg tr =
     write_and_finish (WStr (''<html><body>'' @ msg @ ''</body></html>''))
       (tr @ [Clear, SetStatus status])"

text \<open>
  \<^verbatim>\<open>_find_params_value_of_url\<close>: the segments of the path that are neither one of
  \<open>services\<close> nor empty. The loop after the comprehension copies every value, a string
  never being \<^verbatim>\<open>None\<close>.
\<close>

definition find_params_value_of_url :: "string list \<Rightarrow> string \<Rightarrow> string option list" where
  "find_params_value_of_url services url =
     (let url_split = str_split CHR ''/'' url;
          values = filter (\<lambda>item. item \<notin> set services \<and> item \<noteq> []) url_split
      in map Some values)"

text \<open>
  The loop of \<^verbatim>\<open>_find_params_value_of_arguments\<close> over the parameters that are no
  path variables: the first raw value of each one the request has (\<^verbatim>\<open>v[0]\<close> raises
  \<^verbatim>\<open>IndexError\<close> on an empty list), \<^verbatim>\<open>None\<close> for the others.
\<close>

fun values_of_arguments ::
  "(string \<times> string list) list \<Rightarrow> string list \<Rightarrow> exn + string option list" where
  "values_of_arguments arguments [] = Inr []"
| "values_of_arguments arguments (p # params) =
     (case map_of arguments p of
        Some v \<Rightarrow>
          (case v of
             [] \<Rightarrow> Inl IndexError
           | v0 # vs \<Rightarrow>
               (case values_of_arguments arguments params of
                  Inl e \<Rightarrow> Inl e
                | Inr values \<Rightarrow> Inr (Some v0 # values)))
      | None \<Rightarrow>
          (case values_of_arguments arguments params of
             Inl e \<Rightarrow> Inl e
           | Inr values \<Rightarrow> Inr (None # values)))"

text \<open>
  \<^verbatim>\<open>_find_params_value_of_arguments\<close>. \<^verbatim>\<open>[None]*n\<close> is empty for \<open>n \<le> 0\<close>, as
  \<^term>\<open>replicate\<close> over the truncated difference is.
\<close>

definition find_params_value_of_arguments ::
  "request \<Rightarrow> operation \<Rightarrow> exn + string option list" where
  "find_params_value_of_arguments req operation =
     (if length (req_arguments req) > 0 then
        (let a = op_service_params operation;
             b = op_func_params operation;
             params = filter (\<lambda>item. item \<notin> set a) b
         in values_of_arguments (req_arguments req) params)
      else if length (req_arguments req) = 0 \<and> length (op_query_params operation) > 0 then
        Inr (replicate (length (op_func_params operation) - length (op_service_params operation))
               None)
      else Inr [])"

text \<open>
  \<^verbatim>\<open>_convert_params_values\<close>, the index \<open>i\<close> of the loop made explicit:
  \<^verbatim>\<open>params_types[i]\<close> raises \<^verbatim>\<open>IndexError\<close> past the end of the list, and only a
  value that is not \<^verbatim>\<open>None\<close> reads it. \<open>conv\<close> is \<^verbatim>\<open>types.convert\<close>, a parameter
  of the model: \<^term>\<open>None\<close> when it raises.
\<close>

fun convert_params_values_from ::
  "(string \<Rightarrow> ptype \<Rightarrow> pyval option) \<Rightarrow> nat \<Rightarrow> string option list \<Rightarrow> ptype list \<Rightarrow>
     exn + pyval list" where
  "convert_params_values_from conv i [] params_types = Inr []"
| "convert_params_values_from conv i (None # values_list) params_types =
     (case convert_params_values_from conv (i + 1) values_list params_types of
        Inl e \<Rightarrow> Inl e
      | Inr values \<Rightarrow> Inr (PNone # values))"
| "convert_params_values_from conv i (Some v # values_list) params_types =
     (if i < length params_types then
        (case conv v (params_types ! i) of
           None \<Rightarrow> Inl ConversionError
         | Some x \<Rightarrow>
             (case convert_params_values_from conv (i + 1) values_list params_types of
                Inl e \<Rightarrow> Inl e
              | Inr values \<Rightarrow> Inr (x # values)))
      else Inl IndexError)"

definition convert_params_values ::
  "(string \<Rightarrow> ptype \<Rightarrow> pyval option) \<Rightarrow> string option list \<Rightarrow> ptype list \<Rightarrow>
     exn + pyval list" where
  "convert_params_values conv values_list params_types =
     convert_params_values_from conv 0 values_list params_types"

subsection \<open>\<^verbatim>\<open>RestHandler._exe\<close>\<close>

text \<open>
  The locals \<^verbatim>\<open>params_types\<close> of the loop body. \<^verbatim>\<open>x or y\<close> takes \<open>y\<close> for the
  empty list. Python 3's \<^verbatim>\<open>map\<close> over two lists stops with the shorter one, so the
  merged list is as long as the shorter of \<^verbatim>\<open>_types\<close> and the path variables.
\<close>

definition params_types_of :: "operation \<Rightarrow> ptype list" where
  "params_types_of operation =
     (let service_params = op_service_params operation;
          params_types = (if op_types operation = []
                          then replicate (length service_params) (Some TStr)
                          else op_types operation)
      in map (\<lambda>(x, y). case x of None \<Rightarrow> y | Some t \<Rightarrow> t)
           (zip params_types (replicate (length service_params) TStr)))"

text \<open>The condition of the \<^verbatim>\<open>if\<close> in the loop: the descriptor matches the request.\<close>

definition is_match :: "request \<Rightarrow> operation \<Rightarrow> bool" where
  "is_match req operation =
     (let path = str_split CHR ''/'' (req_path req);
          services_and_params = list_from_filter (\<lambda>x. x \<noteq> []) path;
          service_name = op_service_name operation;
          service_params = op_service_params operation;
          services_from_request = list_from_filter (\<lambda>x. x \<in> set path) service_name
      in op_method operation = req_method req \<and> service_name = services_from_request \<and>
         length service_params + length service_name = length services_and_params)"

text \<open>
  The positional values for the call: the values of the path, then those of the query,
  converted.
\<close>

definition p_values_of ::
  "(string \<Rightarrow> ptype \<Rightarrow> pyval option) \<Rightarrow> request \<Rightarrow> operation \<Rightarrow> exn + pyval list" where
  "p_values_of conv req operation =
     (case find_params_value_of_arguments req operation of
        Inl e \<Rightarrow> Inl e
      | Inr from_arguments \<Rightarrow>
          (let params_values =
                 find_params_value_of_url (op_service_name operation) (req_path req) @
                 from_arguments
           in convert_params_values conv params_values (params_types_of operation)))"

text \<open>
  \<^verbatim>\<open>operation(*p_values)\<close>: the wrapper passes the receiver and the values on to the
  decorated method. Python binds them to the parameters and raises \<^verbatim>\<open>TypeError\<close>
  when a parameter without a default gets no value, or when there are more values than
  parameters and no \<^verbatim>\<open>*args\<close>; otherwise the body runs.
\<close>

definition call :: "operation \<Rightarrow> pyval list \<Rightarrow> exn + pyval" where
  "call operation p_values =
     (let func = op_func operation;
          given = 1 + length p_values
      in if given < length (fn_args func) - fn_defaults func then Inl TypeError
         else if length (fn_args func) < given \<and> \<not> fn_varargs func then Inl TypeError
         else fn_body func p_values)"

text \<open>
  How the body of the loop ends: with the next descriptor, or with \<^verbatim>\<open>return\<close>.
\<close>

datatype flow = Next | Return

text \<open>
  \<^verbatim>\<open>isinstance\<close> against \<^verbatim>\<open>dict\<close>, \<^verbatim>\<open>list\<close> and
  \<^verbatim>\<open>xml.dom.minidom.Document\<close>.
\<close>

fun isinstance_dict :: "pyval \<Rightarrow> bool" where
  "isinstance_dict (PDict d) = True"
| "isinstance_dict response = False"

fun isinstance_list :: "pyval \<Rightarrow> bool" where
  "isinstance_list (PList xs) = True"
| "isinstance_list response = False"

fun isinstance_Document :: "pyval \<Rightarrow> bool" where
  "isinstance_Document (PDocument xml) = True"
| "isinstance_Document response = False"

text \<open>
  The argument of \<^verbatim>\<open>write\<close> in the three branches: the dict itself,
  \<^verbatim>\<open>json.dumps(response)\<close> for a list, which raises \<^verbatim>\<open>TypeError\<close> on a list that
  cannot be encoded, and \<^verbatim>\<open>response.toxml()\<close>.
\<close>

fun body_of :: "pyval \<Rightarrow> exn + chunk" where
  "body_of (PDict d) = Inr (WDict d)"
| "body_of (PList xs) = (if json_encodable (PList xs) then Inr (WJson xs) else Inl TypeError)"
| "body_of (PDocument xml) = Inr (WStr xml)"
| "body_of response = Inr (WStr [])"

definition write_body :: "pyval \<Rightarrow> trace \<Rightarrow> (exn + unit) \<times> trace" where
  "write_body response tr =
     (case body_of response of
        Inl e \<Rightarrow> (Inl e, tr)
      | Inr c \<Rightarrow> write_and_finish c tr)"

text \<open>
  The negotiation of the response after the call, for a response that is not
  \<^verbatim>\<open>None\<close>.
\<close>

definition respond :: "string \<Rightarrow> pyval \<Rightarrow> trace \<Rightarrow> (exn + unit) \<times> trace" where
  "respond produces response tr =
     (let tr1 = tr @ [SetHeader ''Content-Type'' produces]
      in if produces = APPLICATION_JSON \<and> isinstance_dict response
         then write_body response tr1
         else if produces = APPLICATION_JSON \<and> isinstance_list response
         then write_body response tr1
         else if produces \<in> set [APPLICATION_XML, TEXT_XML] \<and> isinstance_Document response
         then write_body response tr1
         else gen_http_error 500
                (''Internal Server Error : response is not '' @ produces @ '' document'') tr1)"

text \<open>
  The body of the \<^verbatim>\<open>try\<close>. \<open>Call\<close> records that \<^verbatim>\<open>operation(*p_values)\<close> is
  evaluated, whether the method then returns or raises.
\<close>

definition try_block ::
  "(string \<Rightarrow> ptype \<Rightarrow> pyval option) \<Rightarrow> request \<Rightarrow> operation \<Rightarrow> trace \<Rightarrow>
     (exn + flow) \<times> trace" where
  "try_block conv req operation tr =
     (case p_values_of conv req operation of
        Inl e \<Rightarrow> (Inl e, tr)
      | Inr p_values \<Rightarrow>
          (let tr1 = tr @ [Call (op_name operation) p_values]
           in case call operation p_values of
                Inl e \<Rightarrow> (Inl e, tr1)
              | Inr response \<Rightarrow>
                  (if response = PNone then (Inr Return, tr1)
                   else (case respond (op_produces operation) response tr1 of
                           (Inl e, tr2) \<Rightarrow> (Inl e, tr2)
                         | (Inr u, tr2) \<Rightarrow> (Inr Next, tr2)))))"

text \<open>
  The two \<^verbatim>\<open>except\<close> clauses. An exception that \<^verbatim>\<open>gen_http_error\<close> raises inside
  a clause leaves \<^verbatim>\<open>_exe\<close>.
\<close>

definition handle_exception :: "exn \<Rightarrow> trace \<Rightarrow> (exn + flow) \<times> trace" where
  "handle_exception e tr =
     (case e of
        HTTPError status_code log_message \<Rightarrow>
          (case gen_http_error status_code ''HTTP Error'' tr of
             (Inl e', tr1) \<Rightarrow> (Inl e', tr1)
           | (Inr u, tr1) \<Rightarrow> (Inr Next, tr1))
      | _ \<Rightarrow>
          (case gen_http_error 500 ''Internal Server Error'' tr of
             (Inl e', tr1) \<Rightarrow> (Inl e', tr1)
           | (Inr u, tr1) \<Rightarrow> (Inl (Exception_with_traceback e), tr1)))"

text \<open>One turn of the loop, for one operation.\<close>

definition exe_operation ::
  "(string \<Rightarrow> ptype \<Rightarrow> pyval option) \<Rightarrow> request \<Rightarrow> operation \<Rightarrow> trace \<Rightarrow>
     (exn + flow) \<times> trace" where
  "exe_operation conv req operation tr =
     (if is_match req operation then
        (case try_block conv req operation tr of
           (Inl e, tr1) \<Rightarrow> handle_exception e tr1
         | (Inr f, tr1) \<Rightarrow> (Inr f, tr1))
      else (Inr Next, tr))"

text \<open>The \<^verbatim>\<open>for\<close> loop over the operations of the handler.\<close>

fun exe_loop ::
  "(string \<Rightarrow> ptype \<Rightarrow> pyval option) \<Rightarrow> request \<Rightarrow> operation list \<Rightarrow> trace \<Rightarrow>
     (exn + unit) \<times> trace" where
  "exe_loop conv req [] tr = (Inr (), tr)"
| "exe_loop conv req (operation # functions) tr =
     (case exe_operation conv req operation tr of
        (Inl e, tr1) \<Rightarrow> (Inl e, tr1)
      | (Inr Return, tr1) \<Rightarrow> (Inr (), tr1)
      | (Inr Next, tr1) \<Rightarrow> exe_loop conv req functions tr1)"

text \<open>
  \<^verbatim>\<open>_exe\<close>, on a response nothing has been written to. \<open>functions\<close> are the
  operations of the handler, in the order of \<^verbatim>\<open>dir(self)\<close>; \<open>verb\<close> is the argument
  \<^verbatim>\<open>method\<close>. The result is the exception \<^verbatim>\<open>_exe\<close> raises, if any, and the calls
  made.
\<close>

definition exe ::
  "(string \<Rightarrow> ptype \<Rightarrow> pyval option) \<Rightarrow> operation list \<Rightarrow> request \<Rightarrow> string \<Rightarrow>
     (exn + unit) \<times> trace" where
  "exe conv functions req verb =
     (let http_methods = map op_method functions
      in if verb \<notin> set http_methods
         then (Inl (HTTPError 405 (''The service not have '' @ verb @ '' verb'')), [])
         else exe_loop conv req functions [])"

text \<open>
  The entry points \<^verbatim>\<open>get\<close>, \<^verbatim>\<open>post\<close>, \<^verbatim>\<open>put\<close> and \<^verbatim>\<open>delete\<close> of
  \<^verbatim>\<open>RestHandler\<close>; Tornado calls the one named after the verb of the request.
\<close>

definition RestHandler_get ::
  "(string \<Rightarrow> ptype \<Rightarrow> pyval option) \<Rightarrow> operation list \<Rightarrow> request \<Rightarrow> (exn + unit) \<times> trace" where
  "RestHandler_get conv functions req = exe conv functions req ''GET''"

definition RestHandler_post ::
  "(string \<Rightarrow> ptype \<Rightarrow> pyval option) \<Rightarrow> operation list \<Rightarrow> request \<Rightarrow> (exn + unit) \<times> trace" where
  "RestHandler_post conv functions req = exe conv functions req ''POST''"

definition RestHandler_put ::
  "(string \<Rightarrow> ptype \<Rightarrow> pyval option) \<Rightarrow> operation list \<Rightarrow> request \<Rightarrow> (exn + unit) \<times> trace" where
  "RestHandler_put conv functions req = exe conv functions req ''PUT''"

definition RestHandler_delete ::
  "(string \<Rightarrow> ptype \<Rightarrow> pyval option) \<Rightarrow> operation list \<Rightarrow> request \<Rightarrow> (exn + unit) \<times> trace" where
  "RestHandler_delete conv functions req = exe conv functions req ''DELETE''"

subsection \<open>\<^verbatim>\<open>types.convert\<close>\<close>

text \<open>
  Modelled from the spec: \<^verbatim>\<open>types.convert\<close> of \<^verbatim>\<open>pyrestful/types.py\<close>, which is not
  among the sources. The spec: given a raw string and a target type, the typed value
  (integer parse, identity for string); it fails with a conversion error if the raw value
  cannot be parsed. An integer is an optional sign and one or more decimal digits.
\<close>

definition digit_val :: "char \<Rightarrow> nat option" where
  "digit_val c =
     (if c = CHR ''0'' then Some 0 else if c = CHR ''1'' then Some 1
      else if c = CHR ''2'' then Some 2 else if c = CHR ''3'' then Some 3
      else if c = CHR ''4'' then Some 4 else if c = CHR ''5'' then Some 5
      else if c = CHR ''6'' then Some 6 else if c = CHR ''7'' then Some 7
      else if c = CHR ''8'' then Some 8 else if c = CHR ''9'' then Some 9
      else None)"

fun parse_digits :: "nat \<Rightarrow> string \<Rightarrow> nat option" where
  "parse_digits acc [] = Some acc"
| "parse_digits acc (c # cs) =
     (case digit_val c of
        None \<Rightarrow> None
      | Some d \<Rightarrow> parse_digits (10 * acc + d) cs)"

definition parse_int :: "string \<Rightarrow> int option" where
  "parse_int s =
     (case s of
        [] \<Rightarrow> None
      | c # cs \<Rightarrow>
          (if c = CHR ''-'' then
             (if cs = [] then None else map_option (\<lambda>n. - int n) (parse_digits 0 cs))
           else if c = CHR ''+'' then
             (if cs = [] then None else map_option int (parse_digits 0 cs))
           else map_option int (parse_digits 0 s)))"

fun convert :: "string \<Rightarrow> ptype \<Rightarrow> pyval option" where
  "convert v TStr = Some (PStr v)"
| "convert v TInt = map_option PInt (parse_int v)"

subsection \<open>Example handlers\<close>

text \<open>
  Operations used as concrete inputs below, each with the decorated method, the keyword
  arguments of its decorator and the operation \<^verbatim>\<open>config\<close> makes of them.
  \<^verbatim>\<open>@get(_path="/users/{id}", _types=[int]) def get_user(self, id): return {"id": id}\<close>
\<close>

definition get_user :: pyfunc where
  "get_user = \<lparr>fn_name = ''get_user'', fn_args = [''self'', ''id''], fn_defaults = 0,
     fn_varargs = False,
     fn_body = (\<lambda>args. case args of [v] \<Rightarrow> Inr (PDict [(''id'', v)]) | _ \<Rightarrow> Inl TypeError)\<rparr>"

definition get_user_kw :: kwparams where
  "get_user_kw = \<lparr>kw_path = Some ''/users/{id}'', kw_produces = None, kw_consumes = None,
     kw_types = Some [Some TInt], kw_coroutine = None\<rparr>"

definition get_user_op :: operation where
  "get_user_op = \<lparr>op_name = ''get_user'', op_func_params = [''id''],
     op_types = [Some TInt], op_service_name = [''users''],
     op_service_params = [''id''], op_method = ''GET'',
     op_produces = ''application/json'', op_consumes = None, op_query_params = [],
     op_path = ''/users/{id}'', op_is_coroutine = False, op_func = get_user\<rparr>"

text \<open>
  \<^verbatim>\<open>@get(_path="/users/{name}") def get_user_by_name(self, name): return {"name": name}\<close>
\<close>

definition get_user_by_name :: pyfunc where
  "get_user_by_name = \<lparr>fn_name = ''get_user_by_name'', fn_args = [''self'', ''name''], fn_defaults = 0,
     fn_varargs = False,
     fn_body = (\<lambda>args. case args of [v] \<Rightarrow> Inr (PDict [(''name'', v)]) | _ \<Rightarrow> Inl TypeError)\<rparr>"

definition get_user_by_name_kw :: kwparams where
  "get_user_by_name_kw = \<lparr>kw_path = Some ''/users/{name}'', kw_produces = None, kw_consumes = None,
     kw_types = None, kw_coroutine = None\<rparr>"

definition get_user_by_name_op :: operation where
  "get_user_by_name_op = \<lparr>op_name = ''get_user_by_name'', op_func_params = [''name''],
     op_types = [Some TStr], op_service_name = [''users''],
     op_service_params = [''name''], op_method = ''GET'',
     op_produces = ''application/json'', op_consumes = None, op_query_params = [],
     op_path = ''/users/{name}'', op_is_coroutine = False, op_func = get_user_by_name\<rparr>"

text \<open>
  \<^verbatim>\<open>@get(_path="/users/active") def active_users(self): return ["ann"]\<close>
\<close>

definition active_users :: pyfunc where
  "active_users = \<lparr>fn_name = ''active_users'', fn_args = [''self''], fn_defaults = 0,
     fn_varargs = False,
     fn_body = (\<lambda>args. Inr (PList [PStr ''ann'']))\<rparr>"

definition active_users_kw :: kwparams where
  "active_users_kw = \<lparr>kw_path = Some ''/users/active'', kw_produces = None, kw_consumes = None,
     kw_types = None, kw_coroutine = None\<rparr>"

definition active_users_op :: operation where
  "active_users_op = \<lparr>op_name = ''active_users'', op_func_params = [],
     op_types = [], op_service_name = [''users'', ''active''],
     op_service_params = [], op_method = ''GET'',
     op_produces = ''application/json'', op_consumes = None, op_query_params = [],
     op_path = ''/users/active'', op_is_coroutine = False, op_func = active_users\<rparr>"

text \<open>
  \<^verbatim>\<open>@get(_path="/users/{name}") def find_user(self, name): raise tornado.web.HTTPError(404)\<close>
\<close>

definition find_user :: pyfunc where
  "find_user = \<lparr>fn_name = ''find_user'', fn_args = [''self'', ''name''], fn_defaults = 0,
     fn_varargs = False,
     fn_body = (\<lambda>args. Inl (HTTPError 404 ''Not Found''))\<rparr>"

definition find_user_op :: operation where
  "find_user_op = \<lparr>op_name = ''find_user'', op_func_params = [''name''],
     op_types = [Some TStr], op_service_name = [''users''],
     op_service_params = [''name''], op_method = ''GET'',
     op_produces = ''application/json'', op_consumes = None, op_query_params = [],
     op_path = ''/users/{name}'', op_is_coroutine = False, op_func = find_user\<rparr>"

text \<open>
  \<^verbatim>\<open>@get(_path="/search?<q>", _types=[int]) def search(self, q): return [q]\<close>
\<close>

definition search :: pyfunc where
  "search = \<lparr>fn_name = ''search'', fn_args = [''self'', ''q''], fn_defaults = 0,
     fn_varargs = False,
     fn_body = (\<lambda>args. Inr (PList args))\<rparr>"

definition search_kw :: kwparams where
  "search_kw = \<lparr>kw_path = Some ''/search?<q>'', kw_produces = None, kw_consumes = None,
     kw_types = Some [Some TInt], kw_coroutine = None\<rparr>"

definition search_op :: operation where
  "search_op = \<lparr>op_name = ''search'', op_func_params = [''q''],
     op_types = [Some TInt], op_service_name = [''search''],
     op_service_params = [], op_method = ''GET'',
     op_produces = ''application/json'', op_consumes = None, op_query_params = [''q''],
     op_path = ''/search?<q>'', op_is_coroutine = False, op_func = search\<rparr>"

text \<open>
  \<^verbatim>\<open>@get(_path="/users") def list_users(self): return []\<close> and
  \<^verbatim>\<open>@post(_path="/users") def create_user(self): return {"created": 1}\<close>
\<close>

definition list_users :: pyfunc where
  "list_users = \<lparr>fn_name = ''list_users'', fn_args = [''self''], fn_defaults = 0,
     fn_varargs = False,
     fn_body = (\<lambda>args. Inr (PList []))\<rparr>"

definition create_user :: pyfunc where
  "create_user = \<lparr>fn_name = ''create_user'', fn_args = [''self''], fn_defaults = 0,
     fn_varargs = False,
     fn_body = (\<lambda>args. Inr (PDict [(''created'', PInt 1)]))\<rparr>"

definition users_kw :: kwparams where
  "users_kw = \<lparr>kw_path = Some ''/users'', kw_produces = None, kw_consumes = None,
     kw_types = None, kw_coroutine = None\<rparr>"

definition list_users_op :: operation where
  "list_users_op = \<lparr>op_name = ''list_users'', op_func_params = [],
     op_types = [], op_service_name = [''users''],
     op_service_params = [], op_method = ''GET'',
     op_produces = ''application/json'', op_consumes = None, op_query_params = [],
     op_path = ''/users'', op_is_coroutine = False, op_func = list_users\<rparr>"

definition create_user_op :: operation where
  "create_user_op = \<lparr>op_name = ''create_user'', op_func_params = [],
     op_types = [], op_service_name = [''users''],
     op_service_params = [], op_method = ''POST'',
     op_produces = ''application/json'', op_consumes = None, op_query_params = [],
     op_path = ''/users'', op_is_coroutine = False, op_func = create_user\<rparr>"

text \<open>
  \<^verbatim>\<open>@get(_path="/missing") def missing(self): raise tornado.web.HTTPError(404)\<close> and
  \<^verbatim>\<open>@get(_path="/broken") def broken(self): raise KeyError("boom")\<close>
\<close>

definition missing :: pyfunc where
  "missing = \<lparr>fn_name = ''missing'', fn_args = [''self''], fn_defaults = 0,
     fn_varargs = False,
     fn_body = (\<lambda>args. Inl (HTTPError 404 ''Not Found''))\<rparr>"

definition missing_op :: operation where
  "missing_op = \<lparr>op_name = ''missing'', op_func_params = [],
     op_types = [], op_service_name = [''missing''],
     op_service_params = [], op_method = ''GET'',
     op_produces = ''application/json'', op_consumes = None, op_query_params = [],
     op_path = ''/missing'', op_is_coroutine = False, op_func = missing\<rparr>"

definition broken :: pyfunc where
  "broken = \<lparr>fn_name = ''broken'', fn_args = [''self''], fn_defaults = 0,
     fn_varargs = False,
     fn_body = (\<lambda>args. Inl (KeyError ''boom''))\<rparr>"

definition broken_op :: operation where
  "broken_op = \<lparr>op_name = ''broken'', op_func_params = [],
     op_types = [], op_service_name = [''broken''],
     op_service_params = [], op_method = ''GET'',
     op_produces = ''application/json'', op_consumes = None, op_query_params = [],
     op_path = ''/broken'', op_is_coroutine = False, op_func = broken\<rparr>"

text \<open>
  \<^verbatim>\<open>@get(_path="/report", _produces="application/xml") def report(self): return {}\<close>,
  and the same path with a media type that is not allowed.
\<close>

definition report :: pyfunc where
  "report = \<lparr>fn_name = ''report'', fn_args = [''self''], fn_defaults = 0,
     fn_varargs = False,
     fn_body = (\<lambda>args. Inr (PDict []))\<rparr>"

definition report_kw :: kwparams where
  "report_kw = \<lparr>kw_path = Some ''/report'', kw_produces = Some ''application/xml'', kw_consumes = None,
     kw_types = None, kw_coroutine = None\<rparr>"

definition report_op :: operation where
  "report_op = \<lparr>op_name = ''report'', op_func_params = [],
     op_types = [], op_service_name = [''report''],
     op_service_params = [], op_method = ''GET'',
     op_produces = ''application/xml'', op_consumes = None, op_query_params = [],
     op_path = ''/report'', op_is_coroutine = False, op_func = report\<rparr>"

definition plain_kw :: kwparams where
  "plain_kw = \<lparr>kw_path = Some ''/report'', kw_produces = Some ''text/plain'', kw_consumes = None,
     kw_types = None, kw_coroutine = None\<rparr>"

text \<open>
  \<^verbatim>\<open>@get(_path="/session") def session(self): return {"handle": object()}\<close>: a dict
  that JSON cannot encode.
\<close>

definition session :: pyfunc where
  "session = \<lparr>fn_name = ''session'', fn_args = [''self''], fn_defaults = 0,
     fn_varargs = False,
     fn_body = (\<lambda>args. Inr (PDict [(''handle'', PObject ''object'')]))\<rparr>"

definition session_kw :: kwparams where
  "session_kw = \<lparr>kw_path = Some ''/session'', kw_produces = None, kw_consumes = None,
     kw_types = None, kw_coroutine = None\<rparr>"

definition session_op :: operation where
  "session_op = \<lparr>op_name = ''session'', op_func_params = [],
     op_types = [], op_service_name = [''session''],
     op_service_params = [], op_method = ''GET'',
     op_produces = ''application/json'', op_consumes = None, op_query_params = [],
     op_path = ''/session'', op_is_coroutine = False, op_func = session\<rparr>"

text \<open>
  \<^verbatim>\<open>@get(_path="/users/{a}/{b}", _types=[int, int]) def get_pair(self, a, b): return [a, b]\<close>
\<close>

definition get_pair :: pyfunc where
  "get_pair = \<lparr>fn_name = ''get_pair'', fn_args = [''self'', ''a'', ''b''], fn_defaults = 0,
     fn_varargs = False,
     fn_body = (\<lambda>args. Inr (PList args))\<rparr>"

definition get_pair_kw :: kwparams where
  "get_pair_kw = \<lparr>kw_path = Some ''/users/{a}/{b}'', kw_produces = None, kw_consumes = None,
     kw_types = Some [Some TInt, Some TInt], kw_coroutine = None\<rparr>"

definition get_pair_op :: operation where
  "get_pair_op = \<lparr>op_name = ''get_pair'', op_func_params = [''a'', ''b''],
     op_types = [Some TInt, Some TInt], op_service_name = [''users''],
     op_service_params = [''a'', ''b''], op_method = ''GET'',
     op_produces = ''application/json'', op_consumes = None, op_query_params = [],
     op_path = ''/users/{a}/{b}'', op_is_coroutine = False, op_func = get_pair\<rparr>"

text \<open>
  \<^verbatim>\<open>@get(_path="/users/{id}") def user_or_first(self, id="1"): return {"id": id}\<close>: the
  parameter has a default.
\<close>

definition user_or_first :: pyfunc where
  "user_or_first = \<lparr>fn_name = ''user_or_first'', fn_args = [''self'', ''id''], fn_defaults = 1,
     fn_varargs = False,
     fn_body = (\<lambda>args. case args of [] \<Rightarrow> Inr (PDict [(''id'', PStr ''1'')])
                | [v] \<Rightarrow> Inr (PDict [(''id'', v)]) | _ \<Rightarrow> Inl TypeError)\<rparr>"

definition user_or_first_kw :: kwparams where
  "user_or_first_kw = \<lparr>kw_path = Some ''/users/{id}'', kw_produces = None, kw_consumes = None,
     kw_types = None, kw_coroutine = None\<rparr>"

definition user_or_first_op :: operation where
  "user_or_first_op = \<lparr>op_name = ''user_or_first'', op_func_params = [''id''],
     op_types = [Some TStr], op_service_name = [''users''],
     op_service_params = [''id''], op_method = ''GET'',
     op_produces = ''application/json'', op_consumes = None, op_query_params = [],
     op_path = ''/users/{id}'', op_is_coroutine = False, op_func = user_or_first\<rparr>"

section \<open>Properties\<close>

subsection \<open>Strings and the loop\<close>

lemma str_split_not_Nil: "str_split sep s \<noteq> []"
  by (induction s) (auto split: list.splits)

lemma findall_after_nonempty: "x \<in> set (findall_after m s) \<Longrightarrow> x \<noteq> []"
  by (induction m s rule: findall_after.induct) (auto split: if_splits)

lemma filter_member_eq_iff: "(xs = filter P xs) = (\<forall>x\<in>set xs. P x)"
  using filter_id_conv [of P xs] by auto

lemma config_service_name:
  "config func verb kw = Inr operation \<Longrightarrow>
   \<exists>p. op_service_name operation = findall_after CHR ''/'' p"
  by (auto simp: config_def Let_def split: sum.splits option.splits if_splits prod.splits)

lemma is_match_iff:
  assumes "\<forall>token\<in>set (op_service_name operation). token \<noteq> []"
  shows "is_match req operation \<longleftrightarrow>
     (op_method operation = req_method req \<and>
      (\<forall>token\<in>set (op_service_name operation).
         token \<in> set (filter (\<lambda>x. x \<noteq> []) (str_split CHR ''/'' (req_path req)))) \<and>
      length (op_service_params operation) + length (op_service_name operation) =
        length (filter (\<lambda>x. x \<noteq> []) (str_split CHR ''/'' (req_path req))))"
  using assms by (auto simp: is_match_def list_from_filter_def Let_def filter_member_eq_iff)

text \<open>Descriptors that do not match leave the loop where it was.\<close>

lemma exe_loop_skip:
  "\<forall>operation\<in>set pre. \<not> is_match req operation \<Longrightarrow>
   exe_loop conv req (pre @ rest) tr = exe_loop conv req rest tr"
  by (induction pre) (simp_all add: exe_operation_def)

lemma exe_loop_no_match:
  "\<forall>operation\<in>set ops. \<not> is_match req operation \<Longrightarrow>
   exe_loop conv req ops tr = (Inr (), tr)"
  using exe_loop_skip [of ops req conv "[]" tr] by simp

text \<open>The example operations are what \<^verbatim>\<open>config\<close> makes of their declarations.\<close>

lemma config_get_user: "config get_user ''GET'' get_user_kw = Inr get_user_op"
  by (simp add: config_def config_locals_def kw_len_def get_user_def get_user_kw_def
      get_user_op_def APPLICATION_JSON_def APPLICATION_XML_def TEXT_XML_def word_char_def Let_def)

lemma config_get_user_by_name:
  "get get_user_by_name_kw get_user_by_name = Inr get_user_by_name_op"
  by (simp add: get_def config_def config_locals_def kw_len_def get_user_by_name_def
      get_user_by_name_kw_def get_user_by_name_op_def APPLICATION_JSON_def APPLICATION_XML_def
      TEXT_XML_def word_char_def Let_def)

lemma config_search: "get search_kw search = Inr search_op"
  by (simp add: get_def config_def config_locals_def kw_len_def search_def search_kw_def
      search_op_def APPLICATION_JSON_def APPLICATION_XML_def TEXT_XML_def word_char_def Let_def)

lemma config_list_users: "get users_kw list_users = Inr list_users_op"
  by (simp add: get_def config_def config_locals_def kw_len_def list_users_def users_kw_def
      list_users_op_def APPLICATION_JSON_def APPLICATION_XML_def TEXT_XML_def word_char_def Let_def)

lemma config_create_user: "post users_kw create_user = Inr create_user_op"
  by (simp add: post_def config_def config_locals_def kw_len_def create_user_def users_kw_def
      create_user_op_def APPLICATION_JSON_def APPLICATION_XML_def TEXT_XML_def word_char_def
      Let_def)

lemma config_active_users: "get active_users_kw active_users = Inr active_users_op"
  by (simp add: get_def config_def config_locals_def kw_len_def active_users_def
      active_users_kw_def active_users_op_def APPLICATION_JSON_def APPLICATION_XML_def
      TEXT_XML_def word_char_def Let_def)

lemma config_get_pair: "get get_pair_kw get_pair = Inr get_pair_op"
  by (simp add: get_def config_def config_locals_def kw_len_def get_pair_def get_pair_kw_def
      get_pair_op_def APPLICATION_JSON_def APPLICATION_XML_def TEXT_XML_def word_char_def Let_def)

subsection \<open>The match predicate\<close>

text \<open>
  C1. For every request and every operation that \<^verbatim>\<open>config\<close> has built, the condition
  under which \<^verbatim>\<open>_exe\<close> handles the request with the operation holds if and only if
  (a) the verb of the operation is the verb of the request, (b) every literal token of the
  operation is among the non-empty segments of the request path (membership, whatever the
  position), and (c) the number of path variables plus the number of literal tokens is the
  number of non-empty segments.
\<close>

theorem match_iff:
  assumes "config func verb kw = Inr operation"
  shows "is_match req operation \<longleftrightarrow>
     (op_method operation = req_method req \<and>
      (\<forall>token\<in>set (op_service_name operation).
         token \<in> set (filter (\<lambda>x. x \<noteq> []) (str_split CHR ''/'' (req_path req)))) \<and>
      length (op_service_params operation) + length (op_service_name operation) =
        length (filter (\<lambda>x. x \<noteq> []) (str_split CHR ''/'' (req_path req))))"
proof -
  from assms obtain p where "op_service_name operation = findall_after CHR ''/'' p"
    using config_service_name by blast
  then have "\<forall>token\<in>set (op_service_name operation). token \<noteq> []"
    by (simp add: findall_after_nonempty)
  then show ?thesis by (rule is_match_iff)
qed

text \<open>
  The operation of \<^verbatim>\<open>/users/{id}\<close> matches \<^verbatim>\<open>GET /users/42\<close>: the verb is the
  same, \<^verbatim>\<open>users\<close> is a segment, and one variable and one token make two segments.
\<close>

theorem match_iff_witness:
  "config get_user ''GET'' get_user_kw = Inr get_user_op \<and>
   is_match \<lparr>req_method = ''GET'', req_path = ''/users/42'', req_arguments = []\<rparr> get_user_op"
proof -
  have "op_method get_user_op = ''GET'' \<and>
     (\<forall>token\<in>set (op_service_name get_user_op).
         token \<in> set (filter (\<lambda>x. x \<noteq> []) (str_split CHR ''/'' ''/users/42''))) \<and>
      length (op_service_params get_user_op) + length (op_service_name get_user_op) =
        length (filter (\<lambda>x. x \<noteq> []) (str_split CHR ''/'' ''/users/42''))"
    by (simp add: get_user_op_def)
  then show ?thesis
    using match_iff [OF config_get_user,
        of "\<lparr>req_method = ''GET'', req_path = ''/users/42'', req_arguments = []\<rparr>"]
    by (simp add: config_get_user)
qed

subsection \<open>The verb gate and the scan\<close>

text \<open>
  C6. For every request whose verb is not among the verbs of the operations of the
  handler, \<^verbatim>\<open>_exe\<close> raises \<^verbatim>\<open>HTTPError(405)\<close> with no call made: no operation is
  invoked and nothing is written. No operation matches a request with that verb.
\<close>

theorem verb_gate:
  assumes "verb \<notin> set (map op_method ops)"
  shows "exe conv ops req verb =
           (Inl (HTTPError 405 (''The service not have '' @ verb @ '' verb'')), []) \<and>
         (req_method req = verb \<longrightarrow> (\<forall>operation\<in>set ops. \<not> is_match req operation))"
proof -
  have "op_method operation \<noteq> verb" if "operation \<in> set ops" for operation
    using assms that by auto
  then have "req_method req = verb \<longrightarrow> (\<forall>operation\<in>set ops. \<not> is_match req operation)"
    by (auto simp: is_match_def Let_def)
  moreover have "exe conv ops req verb =
      (Inl (HTTPError 405 (''The service not have '' @ verb @ '' verb'')), [])"
    using assms by (simp add: exe_def)
  ultimately show ?thesis by simp
qed

text \<open>
  With a \<^verbatim>\<open>GET\<close> and a \<^verbatim>\<open>POST\<close> operation on \<^verbatim>\<open>/users\<close>, a \<^verbatim>\<open>PUT\<close> to
  \<^verbatim>\<open>/users\<close> is refused with 405 and matches neither.
\<close>

theorem verb_gate_witness:
  "exe convert [create_user_op, list_users_op]
     \<lparr>req_method = ''PUT'', req_path = ''/users'', req_arguments = []\<rparr> ''PUT'' =
     (Inl (HTTPError 405 ''The service not have PUT verb''), []) \<and>
   \<not> is_match \<lparr>req_method = ''PUT'', req_path = ''/users'', req_arguments = []\<rparr> create_user_op \<and>
   \<not> is_match \<lparr>req_method = ''PUT'', req_path = ''/users'', req_arguments = []\<rparr> list_users_op"
proof -
  have "''PUT'' \<notin> set (map op_method [create_user_op, list_users_op])"
    by (simp add: create_user_op_def list_users_op_def)
  from verb_gate [OF this, of convert
      "\<lparr>req_method = ''PUT'', req_path = ''/users'', req_arguments = []\<rparr>"]
  show ?thesis by simp
qed

text \<open>
  C9. For every request whose verb is among the verbs of the handler and that no
  operation matches, \<^verbatim>\<open>_exe\<close> returns with no call made: no status, no header, no
  body, no error.
\<close>

theorem no_match_no_response:
  assumes "verb \<in> set (map op_method ops)"
    and "\<forall>operation\<in>set ops. \<not> is_match req operation"
  shows "exe conv ops req verb = (Inr (), [])"
  using assms by (simp add: exe_def exe_loop_no_match)

text \<open>\<^verbatim>\<open>GET /users/4/2\<close> on a handler whose only operation is \<^verbatim>\<open>/users/{id}\<close>.\<close>

theorem no_match_no_response_witness:
  "''GET'' \<in> set (map op_method [get_user_op]) \<and>
   \<not> is_match \<lparr>req_method = ''GET'', req_path = ''/users/4/2'', req_arguments = []\<rparr> get_user_op \<and>
   exe convert [get_user_op]
     \<lparr>req_method = ''GET'', req_path = ''/users/4/2'', req_arguments = []\<rparr> ''GET'' = (Inr (), [])"
proof -
  have v: "''GET'' \<in> set (map op_method [get_user_op])"
    by (simp add: get_user_op_def)
  have n: "\<not> is_match \<lparr>req_method = ''GET'', req_path = ''/users/4/2'', req_arguments = []\<rparr>
              get_user_op"
    by (simp add: is_match_def get_user_op_def list_from_filter_def)
  then have "\<forall>operation\<in>set [get_user_op].
      \<not> is_match \<lparr>req_method = ''GET'', req_path = ''/users/4/2'', req_arguments = []\<rparr> operation"
    by simp
  from no_match_no_response [OF v this, of convert] v n show ?thesis by simp
qed

subsection \<open>Registration\<close>

lemma config_produces:
  "config func verb kw = Inr operation \<Longrightarrow>
   op_produces operation = (case kw_produces kw of None \<Rightarrow> APPLICATION_JSON | Some p \<Rightarrow> p) \<and>
   op_produces operation \<in> {APPLICATION_JSON, APPLICATION_XML, TEXT_XML}"
  by (auto simp: config_def config_locals_def Let_def
      split: sum.splits option.splits if_splits prod.splits)

lemma config_rejects:
  "kw_produces kw = Some p \<Longrightarrow> p \<notin> {APPLICATION_JSON, APPLICATION_XML, TEXT_XML} \<Longrightarrow>
   \<exists>e. config func verb kw = Inl e"
  by (cases "config func verb kw") (auto dest: config_produces)

lemma config_no_kwparams: "kw_len kw = 0 \<Longrightarrow> config func verb kw = Inl TypeError"
  by (simp add: config_def config_locals_def)

lemma gen_http_error_raises:
  "gen_http_error status msg tr = (Inl e, tr1) \<Longrightarrow> e = RuntimeError"
  by (auto simp: gen_http_error_def write_and_finish_def self_write_def self_finish_def
      split: if_splits)

lemma handle_exception_raises:
  "handle_exception e tr = (Inl e', tr1) \<Longrightarrow>
   e' = RuntimeError \<or> e' = Exception_with_traceback e"
  by (cases e)
     (auto simp: handle_exception_def split: prod.splits sum.splits dest: gen_http_error_raises)

lemma exe_operation_raises:
  "exe_operation conv req operation tr = (Inl e, tr1) \<Longrightarrow>
   e = RuntimeError \<or> (\<exists>e'. e = Exception_with_traceback e')"
  by (auto simp: exe_operation_def split: if_splits prod.splits sum.splits
      dest: handle_exception_raises)

lemma exe_loop_raises:
  "exe_loop conv req ops tr = (Inl e, tr1) \<Longrightarrow>
   e = RuntimeError \<or> (\<exists>e'. e = Exception_with_traceback e')"
proof (induction ops arbitrary: tr)
  case Nil
  then show ?case by simp
next
  case (Cons operation ops)
  then show ?case
    by (auto split: prod.splits sum.splits flow.splits dest: exe_operation_raises)
qed

lemma exe_raises:
  "exe conv ops req verb = (Inl e, tr1) \<Longrightarrow>
   e = HTTPError 405 (''The service not have '' @ verb @ '' verb'') \<or>
   e = RuntimeError \<or> (\<exists>e'. e = Exception_with_traceback e')"
  by (auto simp: exe_def Let_def split: if_splits dest: exe_loop_raises)

text \<open>
  C4. For every registration: if no \<^verbatim>\<open>_produces\<close> is given, the operation produces
  \<^verbatim>\<open>application/json\<close>; every operation \<^verbatim>\<open>config\<close> returns produces one of the
  three allowed media types; with a \<^verbatim>\<open>_produces\<close> outside the three (or with no
  keyword argument at all) \<^verbatim>\<open>config\<close> raises, so no operation exists; and \<^verbatim>\<open>_exe\<close>
  never raises the media type error.
\<close>

theorem produces_checked_at_registration:
  "(config func verb kw = Inr operation \<longrightarrow> kw_produces kw = None \<longrightarrow>
      op_produces operation = APPLICATION_JSON) \<and>
   (config func verb kw = Inr operation \<longrightarrow>
      op_produces operation \<in> {APPLICATION_JSON, APPLICATION_XML, TEXT_XML}) \<and>
   (kw_produces kw = Some p \<longrightarrow> p \<notin> {APPLICATION_JSON, APPLICATION_XML, TEXT_XML} \<longrightarrow>
      (\<exists>e. config func verb kw = Inl e)) \<and>
   (kw_len kw = 0 \<longrightarrow> config func verb kw = Inl TypeError) \<and>
   fst (exe conv ops req v) \<noteq> Inl (PyRestfulException msg)"
proof -
  have "fst (exe conv ops req v) \<noteq> Inl (PyRestfulException msg)"
    using exe_raises [of conv ops req v "PyRestfulException msg" "snd (exe conv ops req v)"]
    by (cases "exe conv ops req v") auto
  then show ?thesis
    using config_produces [of func verb kw operation] config_rejects [of kw p func verb]
      config_no_kwparams [of kw func verb]
    by auto
qed

text \<open>
  \<^verbatim>\<open>get_user\<close> is declared without \<^verbatim>\<open>_produces\<close> and produces JSON; the same
  function declared with \<^verbatim>\<open>text/plain\<close> is refused.
\<close>

theorem produces_checked_at_registration_witness:
  "config get_user ''GET'' get_user_kw = Inr get_user_op \<and> kw_produces get_user_kw = None \<and>
   op_produces get_user_op = APPLICATION_JSON \<and>
   kw_produces plain_kw = Some ''text/plain'' \<and>
   ''text/plain'' \<notin> {APPLICATION_JSON, APPLICATION_XML, TEXT_XML} \<and>
   (\<exists>e. config get_user ''GET'' plain_kw = Inl e)"
proof -
  have a: "kw_produces get_user_kw = None" by (simp add: get_user_kw_def)
  have b: "kw_produces plain_kw = Some ''text/plain''" by (simp add: plain_kw_def)
  have c: "''text/plain'' \<notin> {APPLICATION_JSON, APPLICATION_XML, TEXT_XML}"
    by (simp add: APPLICATION_JSON_def APPLICATION_XML_def TEXT_XML_def)
  from produces_checked_at_registration
    [of get_user "''GET''" get_user_kw get_user_op "''text/plain''"]
    produces_checked_at_registration
    [of get_user "''GET''" plain_kw get_user_op "''text/plain''"]
    a b c config_get_user
  show ?thesis by simp
qed

subsection \<open>Compilation and dispatch of \<^verbatim>\<open>/users/{id}\<close>\<close>

lemma find_params_value_of_url_eq:
  "find_params_value_of_url services url =
     map Some (filter (\<lambda>s. s \<notin> set services) (filter (\<lambda>s. s \<noteq> []) (str_split CHR ''/'' url)))"
  by (auto simp: find_params_value_of_url_def Let_def intro: filter_cong)

text \<open>
  C5. The template \<^verbatim>\<open>/users/{id}\<close> compiles to the literal token \<^verbatim>\<open>users\<close> and the
  path variable \<^verbatim>\<open>id\<close>. The values of a path are its segments (split on \<^verbatim>\<open>/\<close>), the
  empty ones dropped, the literal tokens dropped, the rest in order. For
  \<^verbatim>\<open>GET /users/42\<close> with no query string they are \<^verbatim>\<open>["42"]\<close>, and with the
  declared type \<^verbatim>\<open>int\<close> the method is called with the integer 42.
\<close>

theorem users_template_round_trip:
  "config get_user ''GET'' get_user_kw = Inr get_user_op \<and>
   op_service_name get_user_op = [''users''] \<and>
   op_service_params get_user_op = [''id''] \<and>
   find_params_value_of_url services url =
     map Some (filter (\<lambda>s. s \<notin> set services)
       (filter (\<lambda>s. s \<noteq> []) (str_split CHR ''/'' url))) \<and>
   find_params_value_of_url (op_service_name get_user_op) ''/users/42'' = [Some ''42''] \<and>
   p_values_of convert
     \<lparr>req_method = ''GET'', req_path = ''/users/42'', req_arguments = []\<rparr> get_user_op =
     Inr [PInt 42] \<and>
   exe convert [get_user_op]
     \<lparr>req_method = ''GET'', req_path = ''/users/42'', req_arguments = []\<rparr> ''GET'' =
     (Inr (), [Call ''get_user'' [PInt 42], SetHeader ''Content-Type'' ''application/json'',
               Write (WDict [(''id'', PInt 42)]), Finish])"
proof -
  have "find_params_value_of_url (op_service_name get_user_op) ''/users/42'' = [Some ''42'']"
    by code_simp
  moreover have "p_values_of convert
     \<lparr>req_method = ''GET'', req_path = ''/users/42'', req_arguments = []\<rparr> get_user_op =
     Inr [PInt 42]"
    by code_simp
  moreover have "exe convert [get_user_op]
     \<lparr>req_method = ''GET'', req_path = ''/users/42'', req_arguments = []\<rparr> ''GET'' =
     (Inr (), [Call ''get_user'' [PInt 42], SetHeader ''Content-Type'' ''application/json'',
               Write (WDict [(''id'', PInt 42)]), Finish])"
    by code_simp
  ultimately show ?thesis
    by (simp add: config_get_user find_params_value_of_url_eq get_user_op_def)
qed

subsection \<open>Two operations that match the same request\<close>

text \<open>
  C2, at an input where it fails. \<^verbatim>\<open>active_users\<close> on \<^verbatim>\<open>/users/active\<close> and
  \<^verbatim>\<open>get_user_by_name\<close> on \<^verbatim>\<open>/users/{name}\<close> both match
  \<^verbatim>\<open>GET /users/active\<close>. After the first has been handled and the response finished,
  the loop goes on: the second method is called as well, with \<^verbatim>\<open>active\<close> for its
  name; its \<^verbatim>\<open>write\<close> raises on the finished response, and so does the \<^verbatim>\<open>write\<close>
  of the error page, so \<^verbatim>\<open>_exe\<close> ends with \<^verbatim>\<open>RuntimeError\<close>.
\<close>

theorem later_match_is_invoked:
  "get active_users_kw active_users = Inr active_users_op \<and>
   get get_user_by_name_kw get_user_by_name = Inr get_user_by_name_op \<and>
   is_match \<lparr>req_method = ''GET'', req_path = ''/users/active'', req_arguments = []\<rparr>
     active_users_op \<and>
   is_match \<lparr>req_method = ''GET'', req_path = ''/users/active'', req_arguments = []\<rparr>
     get_user_by_name_op \<and>
   exe convert [active_users_op, get_user_by_name_op]
     \<lparr>req_method = ''GET'', req_path = ''/users/active'', req_arguments = []\<rparr> ''GET'' =
     (Inl RuntimeError,
      [Call ''active_users'' [], SetHeader ''Content-Type'' ''application/json'',
       Write (WJson [PStr ''ann'']), Finish,
       Call ''get_user_by_name'' [PStr ''active''],
       SetHeader ''Content-Type'' ''application/json'', Clear, SetStatus 500])"
proof -
  have "is_match \<lparr>req_method = ''GET'', req_path = ''/users/active'', req_arguments = []\<rparr>
     active_users_op"
    by code_simp
  moreover have
    "is_match \<lparr>req_method = ''GET'', req_path = ''/users/active'', req_arguments = []\<rparr>
     get_user_by_name_op"
    by code_simp
  moreover have "exe convert [active_users_op, get_user_by_name_op]
     \<lparr>req_method = ''GET'', req_path = ''/users/active'', req_arguments = []\<rparr> ''GET'' =
     (Inl RuntimeError,
      [Call ''active_users'' [], SetHeader ''Content-Type'' ''application/json'',
       Write (WJson [PStr ''ann'']), Finish,
       Call ''get_user_by_name'' [PStr ''active''],
       SetHeader ''Content-Type'' ''application/json'', Clear, SetStatus 500])"
    by code_simp
  ultimately show ?thesis
    by (simp add: config_active_users config_get_user_by_name)
qed

subsection \<open>A query variable with a declared type\<close>

text \<open>
  C3, at an input where its second half fails. \<^verbatim>\<open>search\<close> declares the query variable
  \<^verbatim>\<open>q\<close> with type \<^verbatim>\<open>int\<close> and no path variable. With no query string the method
  is called with \<^verbatim>\<open>None\<close> for \<^verbatim>\<open>q\<close>. The merged \<^verbatim>\<open>params_types\<close> is as long
  as the list of path variables, that is empty, so with \<^verbatim>\<open>q=5\<close> the conversion reads
  \<^verbatim>\<open>params_types[0]\<close> and raises \<^verbatim>\<open>IndexError\<close>: the method is not called and the
  client gets the 500 page.
\<close>

theorem query_value_not_converted:
  "get search_kw search = Inr search_op \<and>
   exe convert [search_op]
     \<lparr>req_method = ''GET'', req_path = ''/search'', req_arguments = []\<rparr> ''GET'' =
     (Inr (), [Call ''search'' [PNone], SetHeader ''Content-Type'' ''application/json'',
               Write (WJson [PNone]), Finish]) \<and>
   params_types_of search_op = [] \<and>
   exe convert [search_op]
     \<lparr>req_method = ''GET'', req_path = ''/search'', req_arguments = [(''q'', [''5''])]\<rparr> ''GET'' =
     (Inl (Exception_with_traceback IndexError),
      [Clear, SetStatus 500, Write (WStr ''<html><body>Internal Server Error</body></html>''),
       Finish])"
proof -
  have "exe convert [search_op]
     \<lparr>req_method = ''GET'', req_path = ''/search'', req_arguments = []\<rparr> ''GET'' =
     (Inr (), [Call ''search'' [PNone], SetHeader ''Content-Type'' ''application/json'',
               Write (WJson [PNone]), Finish])"
    by code_simp
  moreover have "params_types_of search_op = []"
    by code_simp
  moreover have "exe convert [search_op]
     \<lparr>req_method = ''GET'', req_path = ''/search'', req_arguments = [(''q'', [''5''])]\<rparr> ''GET'' =
     (Inl (Exception_with_traceback IndexError),
      [Clear, SetStatus 500, Write (WStr ''<html><body>Internal Server Error</body></html>''),
       Finish])"
    by code_simp
  ultimately show ?thesis by (simp add: config_search)
qed

subsection \<open>The first matching operation\<close>

text \<open>The operations of the examples that the properties below use, as registered.\<close>

lemma config_find_user: "get get_user_by_name_kw find_user = Inr find_user_op"
  by (simp add: get_def config_def config_locals_def kw_len_def find_user_def
      get_user_by_name_kw_def find_user_op_def APPLICATION_JSON_def APPLICATION_XML_def
      TEXT_XML_def word_char_def Let_def)

lemma config_session: "get session_kw session = Inr session_op"
  by (simp add: get_def config_def config_locals_def kw_len_def session_def
      session_kw_def session_op_def APPLICATION_JSON_def APPLICATION_XML_def
      TEXT_XML_def word_char_def Let_def)

lemma config_user_or_first: "get user_or_first_kw user_or_first = Inr user_or_first_op"
  by (simp add: get_def config_def config_locals_def kw_len_def user_or_first_def
      user_or_first_kw_def user_or_first_op_def APPLICATION_JSON_def APPLICATION_XML_def
      TEXT_XML_def word_char_def Let_def)

lemma config_report: "get report_kw report = Inr report_op"
  by (simp add: get_def config_def config_locals_def kw_len_def report_def
      report_kw_def report_op_def APPLICATION_JSON_def APPLICATION_XML_def
      TEXT_XML_def word_char_def Let_def)

text \<open>
  \<^verbatim>\<open>gen_http_error\<close> writes its page on a response that is not finished, and raises
  at its \<^verbatim>\<open>write\<close> on one that is. The two \<^verbatim>\<open>except\<close> clauses follow from that.
\<close>

lemma gen_http_error_unfinished:
  "\<not> finished tr \<Longrightarrow>
   gen_http_error status msg tr =
     (Inr (), tr @ [Clear, SetStatus status,
                    Write (WStr (''<html><body>'' @ msg @ ''</body></html>'')), Finish])"
  by (simp add: gen_http_error_def write_and_finish_def self_write_def self_finish_def
      finished_def)

lemma gen_http_error_finished:
  "finished tr \<Longrightarrow>
   gen_http_error status msg tr = (Inl RuntimeError, tr @ [Clear, SetStatus status])"
  by (simp add: gen_http_error_def write_and_finish_def self_write_def finished_def)

lemma handle_exception_other:
  assumes "\<forall>status_code log_message. e \<noteq> HTTPError status_code log_message"
  shows "handle_exception e tr =
     (if finished tr then (Inl RuntimeError, tr @ [Clear, SetStatus 500])
      else (Inl (Exception_with_traceback e),
            tr @ [Clear, SetStatus 500,
                  Write (WStr ''<html><body>Internal Server Error</body></html>''), Finish]))"
  using assms
  by (cases e) (simp_all add: handle_exception_def gen_http_error_unfinished
      gen_http_error_finished)

lemma handle_exception_HTTPError:
  "handle_exception (HTTPError status_code log_message) tr =
     (if finished tr then (Inl RuntimeError, tr @ [Clear, SetStatus status_code])
      else (Inr Next,
            tr @ [Clear, SetStatus status_code,
                  Write (WStr ''<html><body>HTTP Error</body></html>''), Finish]))"
  by (simp add: handle_exception_def gen_http_error_unfinished gen_http_error_finished)

text \<open>
  On a response that is not finished the only exception of the negotiation is the
  \<^verbatim>\<open>TypeError\<close> of the JSON encoding, raised after the header has been set; an
  exception of the \<^verbatim>\<open>try\<close> leaves the response unfinished.
\<close>

lemma write_body_unfinished:
  assumes "\<not> finished tr"
  shows "write_body response tr =
     (if (isinstance_dict response \<or> isinstance_list response) \<and> \<not> json_encodable response
      then (Inl TypeError, tr)
      else (Inr (), tr @ [Write (case body_of response of Inr c \<Rightarrow> c), Finish]))"
  using assms
  by (cases response)
     (simp_all add: write_body_def write_and_finish_def self_write_def self_finish_def
       finished_def)

lemma write_body_raises:
  assumes "\<not> finished tr" and "write_body response tr = (Inl e, tr1)"
  shows "e = TypeError \<and> tr1 = tr"
  using assms(2) by (auto simp: write_body_unfinished [OF assms(1)] split: if_splits)

lemma respond_raises:
  assumes "\<not> finished tr" and "respond produces response tr = (Inl e, tr1)"
  shows "e = TypeError \<and> tr1 = tr @ [SetHeader ''Content-Type'' produces]"
proof -
  let ?tr = "tr @ [SetHeader ''Content-Type'' produces]"
  let ?msg = "''Internal Server Error : response is not '' @ produces @ '' document''"
  have u: "\<not> finished ?tr"
    using assms(1) by (simp add: finished_def)
  have "respond produces response tr = write_body response ?tr \<or>
      respond produces response tr = gen_http_error 500 ?msg ?tr"
    by (simp add: respond_def Let_def)
  then show ?thesis
  proof
    assume "respond produces response tr = write_body response ?tr"
    with assms(2) have "write_body response ?tr = (Inl e, tr1)" by simp
    from write_body_raises [OF u this] show ?thesis .
  next
    assume "respond produces response tr = gen_http_error 500 ?msg ?tr"
    with assms(2) have "gen_http_error 500 ?msg ?tr = (Inl e, tr1)" by simp
    then show ?thesis by (simp add: gen_http_error_unfinished [OF u])
  qed
qed

lemma try_block_raises_unfinished:
  assumes "\<not> finished tr" and "try_block conv req operation tr = (Inl e, tr1)"
  shows "\<not> finished tr1"
proof (cases "p_values_of conv req operation")
  case (Inl e')
  with assms show ?thesis by (simp add: try_block_def)
next
  case (Inr p_values)
  have u: "\<not> finished (tr @ [Call (op_name operation) p_values])"
    using assms(1) by (simp add: finished_def)
  show ?thesis
  proof (cases "call operation p_values")
    case (Inl e')
    with Inr assms(2) u show ?thesis by (simp add: try_block_def Let_def)
  next
    case r: (Inr response)
    show ?thesis
    proof (cases "respond (op_produces operation) response
        (tr @ [Call (op_name operation) p_values])")
      case (Pair x tr2)
      show ?thesis
      proof (cases x)
        case (Inl e')
        with Pair respond_raises [OF u] have "tr2 =
            tr @ [Call (op_name operation) p_values] @
              [SetHeader ''Content-Type'' (op_produces operation)]"
          by simp
        with Inr r Pair Inl assms show ?thesis
          by (auto simp: try_block_def Let_def finished_def split: if_splits)
      next
        case (Inr v)
        with \<open>p_values_of conv req operation = Inr p_values\<close> r Pair assms(2)
        show ?thesis
          by (simp add: try_block_def Let_def split: if_splits)
      qed
    qed
  qed
qed

text \<open>The scan up to the first operation that matches.\<close>

lemma exe_operation_match:
  "is_match req operation \<Longrightarrow>
   exe_operation conv req operation tr =
     (case try_block conv req operation tr of
        (Inl e, tr1) \<Rightarrow> handle_exception e tr1
      | (Inr f, tr1) \<Rightarrow> (Inr f, tr1))"
  by (simp add: exe_operation_def)

lemma exe_first_match:
  assumes "\<forall>operation\<in>set pre. \<not> is_match req operation"
    and "is_match req operation" and "req_method req = verb"
  shows "exe conv (pre @ operation # rest) req verb =
           exe_loop conv req (operation # rest) []"
proof -
  from assms(2,3) have "op_method operation = verb"
    by (simp add: is_match_def Let_def)
  then have "verb \<in> set (map op_method (pre @ operation # rest))" by auto
  then have "exe conv (pre @ operation # rest) req verb =
      exe_loop conv req (pre @ operation # rest) []"
    by (simp add: exe_def)
  also have "\<dots> = exe_loop conv req (operation # rest) []"
    using assms(1) by (rule exe_loop_skip)
  finally show ?thesis .
qed

text \<open>
  A method that returns \<^verbatim>\<open>None\<close> ends \<^verbatim>\<open>_exe\<close>: the only \<^verbatim>\<open>return\<close> of the
  loop.
\<close>

lemma none_response_ends_scan:
  assumes "\<forall>operation\<in>set pre. \<not> is_match req operation"
    and "is_match req operation" and "req_method req = verb"
    and "p_values_of conv req operation = Inr p_values"
    and "call operation p_values = Inr PNone"
  shows "exe conv (pre @ operation # rest) req verb =
           (Inr (), [Call (op_name operation) p_values])"
proof -
  have "try_block conv req operation [] = (Inr Return, [Call (op_name operation) p_values])"
    using assms(4,5) by (simp add: try_block_def Let_def)
  then show ?thesis
    using exe_first_match [OF assms(1,2,3), of conv rest] assms(2)
    by (simp add: exe_operation_match)
qed

text \<open>
  What the two \<^verbatim>\<open>except\<close> clauses do for the first operation that matches: an
  \<^verbatim>\<open>HTTPError\<close> gives the page with its status code and the scan goes on; any other
  exception gives the 500 page, and then \<^verbatim>\<open>_exe\<close> raises.
\<close>

lemma first_match_exception:
  assumes "\<forall>operation\<in>set pre. \<not> is_match req operation"
    and "is_match req operation" and "req_method req = verb"
    and "try_block conv req operation [] = (Inl e, tr)"
  shows "(\<forall>status_code log_message. e = HTTPError status_code log_message \<longrightarrow>
            exe conv (pre @ operation # rest) req verb =
              exe_loop conv req rest
                (tr @ [Clear, SetStatus status_code,
                       Write (WStr ''<html><body>HTTP Error</body></html>''), Finish])) \<and>
         ((\<forall>status_code log_message. e \<noteq> HTTPError status_code log_message) \<longrightarrow>
            exe conv (pre @ operation # rest) req verb =
              (Inl (Exception_with_traceback e),
               tr @ [Clear, SetStatus 500,
                     Write (WStr ''<html><body>Internal Server Error</body></html>''), Finish]))"
proof -
  have u: "\<not> finished tr"
    using try_block_raises_unfinished [OF _ assms(4)] by (simp add: finished_def)
  have x: "exe conv (pre @ operation # rest) req verb =
     (case handle_exception e tr of
        (Inl e', tr1) \<Rightarrow> (Inl e', tr1)
      | (Inr Return, tr1) \<Rightarrow> (Inr (), tr1)
      | (Inr Next, tr1) \<Rightarrow> exe_loop conv req rest tr1)"
    using exe_first_match [OF assms(1,2,3), of conv rest] assms(2,4)
    by (simp add: exe_operation_match)
  show ?thesis
    using x u by (auto simp: handle_exception_HTTPError handle_exception_other)
qed

text \<open>
  C7, at an input where it fails. \<^verbatim>\<open>active_users\<close> on \<^verbatim>\<open>/users/active\<close> and
  \<^verbatim>\<open>find_user\<close> on \<^verbatim>\<open>/users/{name}\<close> both match \<^verbatim>\<open>GET /users/active\<close>. The
  first is handled and the response finished; the loop goes on and calls \<^verbatim>\<open>find_user\<close>
  with \<^verbatim>\<open>active\<close>, which raises \<^verbatim>\<open>HTTPError(404)\<close>. \<^verbatim>\<open>gen_http_error\<close> clears
  the response and sets the status 404, but its \<^verbatim>\<open>write\<close> raises on the finished
  response: no page with status 404 is written, and \<^verbatim>\<open>_exe\<close> ends with
  \<^verbatim>\<open>RuntimeError\<close> instead of the translated error.
\<close>

theorem http_error_after_finished_response:
  "get active_users_kw active_users = Inr active_users_op \<and>
   get get_user_by_name_kw find_user = Inr find_user_op \<and>
   is_match \<lparr>req_method = ''GET'', req_path = ''/users/active'', req_arguments = []\<rparr>
     active_users_op \<and>
   is_match \<lparr>req_method = ''GET'', req_path = ''/users/active'', req_arguments = []\<rparr>
     find_user_op \<and>
   call find_user_op [PStr ''active''] = Inl (HTTPError 404 ''Not Found'') \<and>
   exe convert [active_users_op, find_user_op]
     \<lparr>req_method = ''GET'', req_path = ''/users/active'', req_arguments = []\<rparr> ''GET'' =
     (Inl RuntimeError,
      [Call ''active_users'' [], SetHeader ''Content-Type'' ''application/json'',
       Write (WJson [PStr ''ann'']), Finish,
       Call ''find_user'' [PStr ''active''], Clear, SetStatus 404])"
proof -
  have "is_match \<lparr>req_method = ''GET'', req_path = ''/users/active'', req_arguments = []\<rparr>
     active_users_op"
    by code_simp
  moreover have
    "is_match \<lparr>req_method = ''GET'', req_path = ''/users/active'', req_arguments = []\<rparr>
     find_user_op"
    by code_simp
  moreover have "call find_user_op [PStr ''active''] = Inl (HTTPError 404 ''Not Found'')"
    by code_simp
  moreover have "exe convert [active_users_op, find_user_op]
     \<lparr>req_method = ''GET'', req_path = ''/users/active'', req_arguments = []\<rparr> ''GET'' =
     (Inl RuntimeError,
      [Call ''active_users'' [], SetHeader ''Content-Type'' ''application/json'',
       Write (WJson [PStr ''ann'']), Finish,
       Call ''find_user'' [PStr ''active''], Clear, SetStatus 404])"
    by code_simp
  ultimately show ?thesis
    by (simp add: config_active_users config_find_user)
qed

subsection \<open>The negotiation of the response\<close>

lemma respond_mismatch:
  assumes "\<not> finished tr"
    and "\<not> (produces = APPLICATION_JSON \<and> isinstance_dict response)"
    and "\<not> (produces = APPLICATION_JSON \<and> isinstance_list response)"
    and "\<not> (produces \<in> {APPLICATION_XML, TEXT_XML} \<and> isinstance_Document response)"
  shows "respond produces response tr =
     (Inr (), tr @ [SetHeader ''Content-Type'' produces, Clear, SetStatus 500,
                    Write (WStr (''<html><body>Internal Server Error : response is not '' @
                                 produces @ '' document</body></html>'')),
                    Finish])"
proof -
  have "\<not> finished (tr @ [SetHeader ''Content-Type'' produces])"
    using assms(1) by (simp add: finished_def)
  then show ?thesis
    using assms(2,3,4) by (auto simp: respond_def Let_def gen_http_error_unfinished)
qed

lemma respond_json_dict:
  assumes "\<not> finished tr"
  shows "respond APPLICATION_JSON (PDict d) tr =
     (if json_encodable (PDict d)
      then (Inr (), tr @ [SetHeader ''Content-Type'' APPLICATION_JSON, Write (WDict d), Finish])
      else (Inl TypeError, tr @ [SetHeader ''Content-Type'' APPLICATION_JSON]))"
proof -
  have "\<not> finished (tr @ [SetHeader ''Content-Type'' APPLICATION_JSON])"
    using assms by (simp add: finished_def)
  then show ?thesis
    by (simp add: respond_def Let_def write_body_unfinished)
qed

lemma respond_returns:
  assumes "\<not> finished tr"
    and "\<not> (produces = APPLICATION_JSON \<and>
            (isinstance_dict response \<or> isinstance_list response) \<and>
            \<not> json_encodable response)"
  shows "fst (respond produces response tr) = Inr ()"
proof -
  have u: "\<not> finished (tr @ [SetHeader ''Content-Type'' p])" for p
    using assms(1) by (simp add: finished_def)
  show ?thesis
    using assms(2)
    by (cases response)
       (auto simp: respond_def Let_def write_body_unfinished [OF u]
          gen_http_error_unfinished [OF u])
qed

lemma try_block_returns:
  assumes "p_values_of conv req operation = Inr p_values"
    and "call operation p_values = Inr response" and "response \<noteq> PNone"
    and "respond (op_produces operation) response [Call (op_name operation) p_values] =
           (Inr (), tr)"
  shows "try_block conv req operation [] = (Inr Next, tr)"
  using assms by (simp add: try_block_def Let_def)

lemma exe_responds:
  assumes "\<forall>operation\<in>set pre. \<not> is_match req operation"
    and "is_match req operation" and "req_method req = verb"
    and "p_values_of conv req operation = Inr p_values"
    and "call operation p_values = Inr response" and "response \<noteq> PNone"
    and "respond (op_produces operation) response [Call (op_name operation) p_values] =
           (Inr (), tr)"
  shows "exe conv (pre @ operation # rest) req verb = exe_loop conv req rest tr"
  using exe_first_match [OF assms(1,2,3), of conv rest]
    try_block_returns [OF assms(4,5,6,7)] assms(2)
  by (simp add: exe_operation_match)

lemma exe_respond_raises:
  assumes "\<forall>operation\<in>set pre. \<not> is_match req operation"
    and "is_match req operation" and "req_method req = verb"
    and "p_values_of conv req operation = Inr p_values"
    and "call operation p_values = Inr response" and "response \<noteq> PNone"
    and "respond (op_produces operation) response [Call (op_name operation) p_values] =
           (Inl TypeError, tr)"
  shows "exe conv (pre @ operation # rest) req verb =
     (Inl (Exception_with_traceback TypeError),
      tr @ [Clear, SetStatus 500,
            Write (WStr ''<html><body>Internal Server Error</body></html>''), Finish])"
proof -
  have "try_block conv req operation [] = (Inl TypeError, tr)"
    using assms(4,5,6,7) by (simp add: try_block_def Let_def)
  from first_match_exception [OF assms(1,2,3) this, of rest] show ?thesis by simp
qed

text \<open>
  C8, as amended. For the first operation that matches a request, called with
  \<open>p_values\<close> and returning a response that is not \<^verbatim>\<open>None\<close>: if it produces
  \<^verbatim>\<open>application/json\<close> and the response is a dict that JSON can encode, the header
  \<^verbatim>\<open>Content-Type\<close> is set to \<^verbatim>\<open>application/json\<close>, the dict is written (the
  transport sends it as a JSON object) and the response is finished; a dict that JSON
  cannot encode makes \<^verbatim>\<open>write\<close> raise \<^verbatim>\<open>TypeError\<close>, which ends in the 500 page
  and the re-raise; if the response fits none of the three supported combinations, the
  dispatcher answers with status 500 and the page
  \<^verbatim>\<open>Internal Server Error : response is not ... document\<close>. Unless the response is
  a dict or list for \<^verbatim>\<open>application/json\<close> that JSON cannot encode, no exception leaves
  \<^verbatim>\<open>_exe\<close> when no later operation matches.
\<close>

theorem response_negotiation:
  assumes "\<forall>operation\<in>set pre. \<not> is_match req operation"
    and "is_match req operation" and "req_method req = verb"
    and "p_values_of conv req operation = Inr p_values"
    and "call operation p_values = Inr response" and "response \<noteq> PNone"
  shows "(\<forall>d. op_produces operation = APPLICATION_JSON \<longrightarrow> response = PDict d \<longrightarrow>
            json_encodable (PDict d) \<longrightarrow>
            exe conv (pre @ operation # rest) req verb =
              exe_loop conv req rest
                [Call (op_name operation) p_values,
                 SetHeader ''Content-Type'' APPLICATION_JSON, Write (WDict d), Finish]) \<and>
         (\<forall>d. op_produces operation = APPLICATION_JSON \<longrightarrow> response = PDict d \<longrightarrow>
            \<not> json_encodable (PDict d) \<longrightarrow>
            exe conv (pre @ operation # rest) req verb =
              (Inl (Exception_with_traceback TypeError),
               [Call (op_name operation) p_values,
                SetHeader ''Content-Type'' APPLICATION_JSON, Clear, SetStatus 500,
                Write (WStr ''<html><body>Internal Server Error</body></html>''), Finish])) \<and>
         (\<not> (op_produces operation = APPLICATION_JSON \<and> isinstance_dict response) \<longrightarrow>
          \<not> (op_produces operation = APPLICATION_JSON \<and> isinstance_list response) \<longrightarrow>
          \<not> (op_produces operation \<in> {APPLICATION_XML, TEXT_XML} \<and>
               isinstance_Document response) \<longrightarrow>
            exe conv (pre @ operation # rest) req verb =
              exe_loop conv req rest
                [Call (op_name operation) p_values,
                 SetHeader ''Content-Type'' (op_produces operation), Clear, SetStatus 500,
                 Write (WStr (''<html><body>Internal Server Error : response is not '' @
                              op_produces operation @ '' document</body></html>'')),
                 Finish]) \<and>
         ((\<forall>later\<in>set rest. \<not> is_match req later) \<longrightarrow>
          \<not> (op_produces operation = APPLICATION_JSON \<and>
              (isinstance_dict response \<or> isinstance_list response) \<and>
              \<not> json_encodable response) \<longrightarrow>
            fst (exe conv (pre @ operation # rest) req verb) = Inr ())"
proof -
  let ?tr = "[Call (op_name operation) p_values]"
  have u: "\<not> finished ?tr" by (simp add: finished_def)
  have a: "exe conv (pre @ operation # rest) req verb =
      exe_loop conv req rest
        [Call (op_name operation) p_values,
         SetHeader ''Content-Type'' APPLICATION_JSON, Write (WDict d), Finish]"
    if "op_produces operation = APPLICATION_JSON" "response = PDict d"
      "json_encodable (PDict d)" for d
  proof -
    have "respond (op_produces operation) response ?tr =
        (Inr (), ?tr @ [SetHeader ''Content-Type'' APPLICATION_JSON, Write (WDict d), Finish])"
      using that by (simp only: respond_json_dict [OF u] if_True)
    from exe_responds [OF assms this, of rest] show ?thesis by simp
  qed
  have b: "exe conv (pre @ operation # rest) req verb =
      (Inl (Exception_with_traceback TypeError),
       [Call (op_name operation) p_values,
        SetHeader ''Content-Type'' APPLICATION_JSON, Clear, SetStatus 500,
        Write (WStr ''<html><body>Internal Server Error</body></html>''), Finish])"
    if "op_produces operation = APPLICATION_JSON" "response = PDict d"
      "\<not> json_encodable (PDict d)" for d
  proof -
    have "respond (op_produces operation) response ?tr =
        (Inl TypeError, ?tr @ [SetHeader ''Content-Type'' APPLICATION_JSON])"
      using that by (simp only: respond_json_dict [OF u] if_False)
    from exe_respond_raises [OF assms this, of rest] show ?thesis by simp
  qed
  have c: "exe conv (pre @ operation # rest) req verb =
      exe_loop conv req rest
        [Call (op_name operation) p_values,
         SetHeader ''Content-Type'' (op_produces operation), Clear, SetStatus 500,
         Write (WStr (''<html><body>Internal Server Error : response is not '' @
                      op_produces operation @ '' document</body></html>'')),
         Finish]"
    if "\<not> (op_produces operation = APPLICATION_JSON \<and> isinstance_dict response)"
      "\<not> (op_produces operation = APPLICATION_JSON \<and> isinstance_list response)"
      "\<not> (op_produces operation \<in> {APPLICATION_XML, TEXT_XML} \<and>
          isinstance_Document response)"
    using exe_responds [OF assms respond_mismatch [OF u that], of rest] by simp
  have d: "fst (exe conv (pre @ operation # rest) req verb) = Inr ()"
    if "\<forall>later\<in>set rest. \<not> is_match req later"
      "\<not> (op_produces operation = APPLICATION_JSON \<and>
          (isinstance_dict response \<or> isinstance_list response) \<and>
          \<not> json_encodable response)"
  proof -
    from respond_returns [OF u that(2)] obtain tr where
      "respond (op_produces operation) response ?tr = (Inr (), tr)"
      by (cases "respond (op_produces operation) response ?tr") auto
    from exe_responds [OF assms this, of rest] that(1) show ?thesis
      by (simp add: exe_loop_no_match)
  qed
  from a b c d show ?thesis by blast
qed

text \<open>
  \<^verbatim>\<open>get_user\<close> produces JSON and returns a dict; \<^verbatim>\<open>report\<close> produces
  \<^verbatim>\<open>application/xml\<close> and returns a dict.
\<close>

theorem response_negotiation_witness:
  "is_match \<lparr>req_method = ''GET'', req_path = ''/users/42'', req_arguments = []\<rparr> get_user_op \<and>
   op_produces get_user_op = APPLICATION_JSON \<and>
   call get_user_op [PInt 42] = Inr (PDict [(''id'', PInt 42)]) \<and>
   json_encodable (PDict [(''id'', PInt 42)]) \<and>
   exe convert [get_user_op]
     \<lparr>req_method = ''GET'', req_path = ''/users/42'', req_arguments = []\<rparr> ''GET'' =
     (Inr (), [Call ''get_user'' [PInt 42], SetHeader ''Content-Type'' APPLICATION_JSON,
               Write (WDict [(''id'', PInt 42)]), Finish]) \<and>
   is_match \<lparr>req_method = ''GET'', req_path = ''/report'', req_arguments = []\<rparr> report_op \<and>
   call report_op [] = Inr (PDict []) \<and>
   exe convert [report_op]
     \<lparr>req_method = ''GET'', req_path = ''/report'', req_arguments = []\<rparr> ''GET'' =
     (Inr (), [Call ''report'' [], SetHeader ''Content-Type'' ''application/xml'', Clear,
               SetStatus 500,
               Write (WStr (''<html><body>Internal Server Error : response is not '' @
                            ''application/xml document</body></html>'')),
               Finish])"
proof -
  have e: "\<forall>operation\<in>set []. \<not> is_match r operation" for r by simp
  have m1: "is_match \<lparr>req_method = ''GET'', req_path = ''/users/42'', req_arguments = []\<rparr>
              get_user_op"
    by code_simp
  have p1: "p_values_of convert
      \<lparr>req_method = ''GET'', req_path = ''/users/42'', req_arguments = []\<rparr> get_user_op =
      Inr [PInt 42]"
    by code_simp
  have c1: "call get_user_op [PInt 42] = Inr (PDict [(''id'', PInt 42)])"
    by code_simp
  have j1: "op_produces get_user_op = APPLICATION_JSON"
    by (simp add: get_user_op_def APPLICATION_JSON_def)
  have m2: "is_match \<lparr>req_method = ''GET'', req_path = ''/report'', req_arguments = []\<rparr>
              report_op"
    by code_simp
  have p2: "p_values_of convert
      \<lparr>req_method = ''GET'', req_path = ''/report'', req_arguments = []\<rparr> report_op = Inr []"
    by code_simp
  have c2: "call report_op [] = Inr (PDict [])"
    by code_simp
  have j2: "op_produces report_op = ''application/xml''" "op_name report_op = ''report''"
    "op_name get_user_op = ''get_user''"
    by (simp_all add: report_op_def get_user_op_def)
  have k: "''application/xml'' \<noteq> APPLICATION_JSON"
    "''application/xml'' \<in> {APPLICATION_XML, TEXT_XML}"
    by (simp_all add: APPLICATION_JSON_def APPLICATION_XML_def)
  from response_negotiation [OF e m1 _ p1 c1, of "''GET''" "[]"]
    response_negotiation [OF e m2 _ p2 c2, of "''GET''" "[]"]
    m1 m2 c1 c2 j1 j2 k
  show ?thesis by simp
qed

text \<open>
  C8, as stated, fails at two inputs. \<^verbatim>\<open>session\<close> produces JSON and returns a dict
  with a value that JSON cannot encode: nothing of it is written, the client gets the 500
  page and \<^verbatim>\<open>_exe\<close> raises. \<^verbatim>\<open>get_user_by_name\<close> matches \<^verbatim>\<open>GET /users/active\<close>
  after \<^verbatim>\<open>active_users\<close> has answered it, produces JSON and returns a dict: the dict
  is not written either, and \<^verbatim>\<open>_exe\<close> ends with \<^verbatim>\<open>RuntimeError\<close>.
\<close>

theorem mapping_not_written:
  "get session_kw session = Inr session_op \<and>
   is_match \<lparr>req_method = ''GET'', req_path = ''/session'', req_arguments = []\<rparr> session_op \<and>
   op_produces session_op = APPLICATION_JSON \<and>
   call session_op [] = Inr (PDict [(''handle'', PObject ''object'')]) \<and>
   exe convert [session_op]
     \<lparr>req_method = ''GET'', req_path = ''/session'', req_arguments = []\<rparr> ''GET'' =
     (Inl (Exception_with_traceback TypeError),
      [Call ''session'' [], SetHeader ''Content-Type'' ''application/json'', Clear,
       SetStatus 500, Write (WStr ''<html><body>Internal Server Error</body></html>''),
       Finish]) \<and>
   is_match \<lparr>req_method = ''GET'', req_path = ''/users/active'', req_arguments = []\<rparr>
     get_user_by_name_op \<and>
   op_produces get_user_by_name_op = APPLICATION_JSON \<and>
   call get_user_by_name_op [PStr ''active''] = Inr (PDict [(''name'', PStr ''active'')]) \<and>
   exe convert [active_users_op, get_user_by_name_op]
     \<lparr>req_method = ''GET'', req_path = ''/users/active'', req_arguments = []\<rparr> ''GET'' =
     (Inl RuntimeError,
      [Call ''active_users'' [], SetHeader ''Content-Type'' ''application/json'',
       Write (WJson [PStr ''ann'']), Finish,
       Call ''get_user_by_name'' [PStr ''active''],
       SetHeader ''Content-Type'' ''application/json'', Clear, SetStatus 500])"
proof -
  have "is_match \<lparr>req_method = ''GET'', req_path = ''/session'', req_arguments = []\<rparr>
      session_op"
    by code_simp
  moreover have "call session_op [] = Inr (PDict [(''handle'', PObject ''object'')])"
    by code_simp
  moreover have "exe convert [session_op]
     \<lparr>req_method = ''GET'', req_path = ''/session'', req_arguments = []\<rparr> ''GET'' =
     (Inl (Exception_with_traceback TypeError),
      [Call ''session'' [], SetHeader ''Content-Type'' ''application/json'', Clear,
       SetStatus 500, Write (WStr ''<html><body>Internal Server Error</body></html>''),
       Finish])"
    by code_simp
  moreover have
    "is_match \<lparr>req_method = ''GET'', req_path = ''/users/active'', req_arguments = []\<rparr>
     get_user_by_name_op"
    by code_simp
  moreover have "call get_user_by_name_op [PStr ''active''] =
      Inr (PDict [(''name'', PStr ''active'')])"
    by code_simp
  moreover have "exe convert [active_users_op, get_user_by_name_op]
     \<lparr>req_method = ''GET'', req_path = ''/users/active'', req_arguments = []\<rparr> ''GET'' =
     (Inl RuntimeError,
      [Call ''active_users'' [], SetHeader ''Content-Type'' ''application/json'',
       Write (WJson [PStr ''ann'']), Finish,
       Call ''get_user_by_name'' [PStr ''active''],
       SetHeader ''Content-Type'' ''application/json'', Clear, SetStatus 500])"
    by code_simp
  ultimately show ?thesis
    by (simp add: config_session session_op_def get_user_by_name_op_def APPLICATION_JSON_def)
qed

subsection \<open>A segment that equals a literal token\<close>

text \<open>
  How many values reach the call: one for each segment that is no literal token, and at
  most one for each parameter of the method that is no path variable.
\<close>

lemma values_of_arguments_length:
  "values_of_arguments arguments params = Inr vals \<Longrightarrow> length vals = length params"
  by (induction params arbitrary: vals)
     (auto split: option.splits list.splits sum.splits)

lemma values_of_arguments_raises:
  "values_of_arguments arguments params = Inl e \<Longrightarrow> e = IndexError"
  by (induction params) (auto split: option.splits list.splits sum.splits)

lemma convert_params_values_from_length:
  "convert_params_values_from conv i values_list params_types = Inr vals \<Longrightarrow>
   length vals = length values_list"
  by (induction conv i values_list params_types arbitrary: vals
      rule: convert_params_values_from.induct)
     (auto split: option.splits sum.splits if_splits)

lemma convert_params_values_from_raises:
  "convert_params_values_from conv i values_list params_types = Inl e \<Longrightarrow>
   e = IndexError \<or> e = ConversionError"
  by (induction conv i values_list params_types rule: convert_params_values_from.induct)
     (auto split: option.splits sum.splits if_splits)

lemma distinct_sublist_count:
  assumes "distinct a" and "set a \<subseteq> set b"
  shows "length a + length (filter (\<lambda>item. item \<notin> set a) b) \<le> length b"
proof -
  have "set (filter (\<lambda>item. item \<in> set a) b) = set a"
    using assms(2) by auto
  then have "card (set a) \<le> length (filter (\<lambda>item. item \<in> set a) b)"
    by (metis card_length)
  then have "length a \<le> length (filter (\<lambda>item. item \<in> set a) b)"
    using assms(1) by (simp add: distinct_card)
  moreover have "length (filter (\<lambda>item. item \<in> set a) b) +
      length (filter (\<lambda>item. item \<notin> set a) b) = length b"
    by (rule sum_length_filter_compl)
  ultimately show ?thesis by linarith
qed

lemma find_params_value_of_arguments_length:
  assumes "distinct (op_service_params operation)"
    and "set (op_service_params operation) \<subseteq> set (op_func_params operation)"
    and "find_params_value_of_arguments req operation = Inr vals"
  shows "length (op_service_params operation) + length vals \<le>
         length (op_func_params operation)"
proof -
  note c = distinct_sublist_count [OF assms(1,2)]
  have l: "length (op_service_params operation) \<le> length (op_func_params operation)"
    using c by linarith
  show ?thesis
  proof (cases "length (req_arguments req) > 0")
    case True
    with assms(3) have "length vals =
        length (filter (\<lambda>item. item \<notin> set (op_service_params operation))
                  (op_func_params operation))"
      by (simp add: find_params_value_of_arguments_def Let_def values_of_arguments_length)
    with c show ?thesis by simp
  next
    case False
    with assms(3) l show ?thesis
      by (auto simp: find_params_value_of_arguments_def split: if_splits)
  qed
qed

lemma find_params_value_of_arguments_raises:
  "find_params_value_of_arguments req operation = Inl e \<Longrightarrow> e = IndexError"
  by (auto simp: find_params_value_of_arguments_def Let_def
      dest: values_of_arguments_raises split: if_splits)

lemma p_values_of_raises:
  "p_values_of conv req operation = Inl e \<Longrightarrow> e = IndexError \<or> e = ConversionError"
  by (auto simp: p_values_of_def Let_def convert_params_values_def split: sum.splits
      dest: find_params_value_of_arguments_raises convert_params_values_from_raises)

lemma p_values_of_length:
  assumes "distinct (op_service_params operation)"
    and "set (op_service_params operation) \<subseteq> set (op_func_params operation)"
    and "p_values_of conv req operation = Inr p_values"
  shows "length (op_service_params operation) + length p_values \<le>
     length (find_params_value_of_url (op_service_name operation) (req_path req)) +
     length (op_func_params operation)"
proof (cases "find_params_value_of_arguments req operation")
  case (Inl e)
  with assms(3) show ?thesis by (simp add: p_values_of_def)
next
  case (Inr from_arguments)
  with assms(3) have "length p_values =
      length (find_params_value_of_url (op_service_name operation) (req_path req)) +
      length from_arguments"
    by (auto simp: p_values_of_def Let_def convert_params_values_def
        dest!: convert_params_values_from_length)
  with find_params_value_of_arguments_length [OF assms(1,2) Inr] show ?thesis by simp
qed

lemma path_values_count:
  assumes "is_match req operation"
  shows "length (find_params_value_of_url (op_service_name operation) (req_path req)) +
         length (filter (\<lambda>s. s \<in> set (op_service_name operation))
                   (filter (\<lambda>s. s \<noteq> []) (str_split CHR ''/'' (req_path req)))) =
         length (op_service_params operation) + length (op_service_name operation)"
proof -
  let ?segs = "filter (\<lambda>s. s \<noteq> []) (str_split CHR ''/'' (req_path req))"
  let ?lits = "op_service_name operation"
  have "length (find_params_value_of_url ?lits (req_path req)) =
      length (filter (\<lambda>s. s \<notin> set ?lits) ?segs)"
    by (simp add: find_params_value_of_url_eq)
  moreover have "length (filter (\<lambda>s. s \<in> set ?lits) ?segs) +
      length (filter (\<lambda>s. s \<notin> set ?lits) ?segs) = length ?segs"
    by (rule sum_length_filter_compl)
  moreover have "length (op_service_params operation) + length ?lits = length ?segs"
    using assms by (simp add: is_match_def Let_def list_from_filter_def)
  ultimately show ?thesis by simp
qed

lemma config_func:
  "config func verb kw = Inr operation \<Longrightarrow>
   op_func operation = func \<and> op_func_params operation = tl (fn_args func)"
  by (auto simp: config_def Let_def split: sum.splits prod.splits option.splits if_splits)

lemma too_few_values:
  assumes "is_match req operation"
    and "length (op_service_name operation) <
         length (filter (\<lambda>s. s \<in> set (op_service_name operation))
                   (filter (\<lambda>s. s \<noteq> []) (str_split CHR ''/'' (req_path req))))"
    and "config func verb kw = Inr operation" and "fn_defaults func = 0"
    and "distinct (op_service_params operation)"
    and "set (op_service_params operation) \<subseteq> set (op_func_params operation)"
    and "p_values_of conv req operation = Inr p_values"
  shows "1 + length p_values <
         length (fn_args (op_func operation)) - fn_defaults (op_func operation)"
proof -
  have fewer: "length (find_params_value_of_url (op_service_name operation) (req_path req)) <
      length (op_service_params operation)"
    using path_values_count [OF assms(1)] assms(2) by linarith
  with p_values_of_length [OF assms(5,6,7)]
  have l: "length p_values < length (op_func_params operation)" by linarith
  from config_func [OF assms(3)] have
    f: "op_func operation = func" "op_func_params operation = tl (fn_args func)"
    by simp_all
  from l f(2) have "1 + length p_values < length (fn_args func)"
    by (cases "fn_args func") simp_all
  with f(1) assms(4) show ?thesis by simp
qed

text \<open>
  C10, as amended. Take a request that an operation matches first and in which more
  non-empty segments equal a literal token than the template has literal tokens (as
  \<^verbatim>\<open>GET /users/users\<close> against \<^verbatim>\<open>/users/{id}\<close>). The extraction drops every such
  segment, so fewer values than path variables come from the path. If the extraction or
  the conversion of the values that are left raises, the method is not called, and the
  request ends with the 500 page and the re-raise. Otherwise the method is called with
  the values that are left, and when they are fewer than its parameters without a default
  the call raises \<^verbatim>\<open>TypeError\<close>, ending the request with the 500 page and the re-raise
  as well. The values are that few for every operation registered by \<^verbatim>\<open>config\<close> whose
  method has no default and has the distinct path variables among its parameters.
\<close>

theorem literal_equal_segment:
  assumes "\<forall>operation\<in>set pre. \<not> is_match req operation"
    and "is_match req operation" and "req_method req = verb"
    and "length (op_service_name operation) <
         length (filter (\<lambda>s. s \<in> set (op_service_name operation))
                   (filter (\<lambda>s. s \<noteq> []) (str_split CHR ''/'' (req_path req))))"
  shows "length (find_params_value_of_url (op_service_name operation) (req_path req)) <
           length (op_service_params operation) \<and>
         (\<forall>e. p_values_of conv req operation = Inl e \<longrightarrow>
            exe conv (pre @ operation # rest) req verb =
              (Inl (Exception_with_traceback e),
               [Clear, SetStatus 500,
                Write (WStr ''<html><body>Internal Server Error</body></html>''), Finish])) \<and>
         (\<forall>p_values. p_values_of conv req operation = Inr p_values \<longrightarrow>
            1 + length p_values <
              length (fn_args (op_func operation)) - fn_defaults (op_func operation) \<longrightarrow>
            call operation p_values = Inl TypeError \<and>
            exe conv (pre @ operation # rest) req verb =
              (Inl (Exception_with_traceback TypeError),
               [Call (op_name operation) p_values, Clear, SetStatus 500,
                Write (WStr ''<html><body>Internal Server Error</body></html>''), Finish])) \<and>
         (\<forall>func kw p_values.
            config func verb kw = Inr operation \<longrightarrow> fn_defaults func = 0 \<longrightarrow>
            distinct (op_service_params operation) \<longrightarrow>
            set (op_service_params operation) \<subseteq> set (op_func_params operation) \<longrightarrow>
            p_values_of conv req operation = Inr p_values \<longrightarrow>
            1 + length p_values <
              length (fn_args (op_func operation)) - fn_defaults (op_func operation))"
proof -
  have fewer: "length (find_params_value_of_url (op_service_name operation) (req_path req)) <
      length (op_service_params operation)"
    using path_values_count [OF assms(2)] assms(4) by linarith
  have a: "exe conv (pre @ operation # rest) req verb =
      (Inl (Exception_with_traceback e),
       [Clear, SetStatus 500,
        Write (WStr ''<html><body>Internal Server Error</body></html>''), Finish])"
    if "p_values_of conv req operation = Inl e" for e
  proof -
    from that have t: "try_block conv req operation [] = (Inl e, [])"
      by (simp add: try_block_def)
    have "\<forall>status_code log_message. e \<noteq> HTTPError status_code log_message"
      using p_values_of_raises [OF that] by auto
    with first_match_exception [OF assms(1,2,3) t, of rest] show ?thesis by simp
  qed
  have b: "call operation p_values = Inl TypeError \<and>
      exe conv (pre @ operation # rest) req verb =
      (Inl (Exception_with_traceback TypeError),
       [Call (op_name operation) p_values, Clear, SetStatus 500,
        Write (WStr ''<html><body>Internal Server Error</body></html>''), Finish])"
    if "p_values_of conv req operation = Inr p_values"
      "1 + length p_values <
         length (fn_args (op_func operation)) - fn_defaults (op_func operation)"
    for p_values
  proof -
    from that(2) have c: "call operation p_values = Inl TypeError"
      by (simp add: call_def Let_def)
    with that(1) have t: "try_block conv req operation [] =
        (Inl TypeError, [Call (op_name operation) p_values])"
      by (simp add: try_block_def Let_def)
    from first_match_exception [OF assms(1,2,3) t, of rest] c show ?thesis by simp
  qed
  have c: "1 + length p_values <
      length (fn_args (op_func operation)) - fn_defaults (op_func operation)"
    if "config func verb kw = Inr operation" "fn_defaults func = 0"
      "distinct (op_service_params operation)"
      "set (op_service_params operation) \<subseteq> set (op_func_params operation)"
      "p_values_of conv req operation = Inr p_values"
    for func kw p_values
    using too_few_values [OF assms(2,4) that] .
  from fewer a b c show ?thesis by blast
qed

text \<open>\<^verbatim>\<open>GET /users/users\<close> against \<^verbatim>\<open>/users/{id}\<close>: the method is called with no value.\<close>

theorem literal_equal_segment_witness:
  "config get_user ''GET'' get_user_kw = Inr get_user_op \<and>
   is_match \<lparr>req_method = ''GET'', req_path = ''/users/users'', req_arguments = []\<rparr>
     get_user_op \<and>
   length (op_service_name get_user_op) <
     length (filter (\<lambda>s. s \<in> set (op_service_name get_user_op))
               (filter (\<lambda>s. s \<noteq> []) (str_split CHR ''/'' ''/users/users''))) \<and>
   length (find_params_value_of_url (op_service_name get_user_op) ''/users/users'') <
     length (op_service_params get_user_op) \<and>
   call get_user_op [] = Inl TypeError \<and>
   exe convert [get_user_op]
     \<lparr>req_method = ''GET'', req_path = ''/users/users'', req_arguments = []\<rparr> ''GET'' =
     (Inl (Exception_with_traceback TypeError),
      [Call ''get_user'' [], Clear, SetStatus 500,
       Write (WStr ''<html><body>Internal Server Error</body></html>''), Finish])"
proof -
  let ?req = "\<lparr>req_method = ''GET'', req_path = ''/users/users'', req_arguments = []\<rparr>"
  have e: "\<forall>operation\<in>set []. \<not> is_match ?req operation" by simp
  have m: "is_match ?req get_user_op" by code_simp
  have w: "distinct (op_service_params get_user_op)"
    "set (op_service_params get_user_op) \<subseteq> set (op_func_params get_user_op)"
    "op_name get_user_op = ''get_user''"
    by (simp_all add: get_user_op_def)
  have d: "fn_defaults get_user = 0" by (simp add: get_user_def)
  have h: "length (op_service_name get_user_op) <
     length (filter (\<lambda>s. s \<in> set (op_service_name get_user_op))
               (filter (\<lambda>s. s \<noteq> []) (str_split CHR ''/'' (req_path ?req))))"
    by (simp add: get_user_op_def)
  have p: "p_values_of convert ?req get_user_op = Inr []" by code_simp
  from literal_equal_segment [OF e m _ h, of "''GET''" convert "[]"] p w d m h config_get_user
  show ?thesis by auto
qed

text \<open>
  C10, as stated, fails at two inputs. \<^verbatim>\<open>GET /users/users/xyz\<close> matches
  \<^verbatim>\<open>/users/{a}/{b}\<close> with both types \<^verbatim>\<open>int\<close>; the one value left, \<^verbatim>\<open>xyz\<close>, is
  no integer, so the conversion raises and the method is not called at all.
  \<^verbatim>\<open>GET /users/users\<close> matches \<^verbatim>\<open>/users/{id}\<close> of \<^verbatim>\<open>user_or_first\<close>, whose
  parameter \<^verbatim>\<open>id\<close> has a default: the method is called with no value, returns, and
  the request is answered with its dict.
\<close>

theorem not_called_or_called_with_default:
  "get get_pair_kw get_pair = Inr get_pair_op \<and>
   is_match \<lparr>req_method = ''GET'', req_path = ''/users/users/xyz'', req_arguments = []\<rparr>
     get_pair_op \<and>
   find_params_value_of_url (op_service_name get_pair_op) ''/users/users/xyz'' =
     [Some ''xyz''] \<and>
   length (op_service_params get_pair_op) = 2 \<and>
   p_values_of convert
     \<lparr>req_method = ''GET'', req_path = ''/users/users/xyz'', req_arguments = []\<rparr>
     get_pair_op = Inl ConversionError \<and>
   exe convert [get_pair_op]
     \<lparr>req_method = ''GET'', req_path = ''/users/users/xyz'', req_arguments = []\<rparr> ''GET'' =
     (Inl (Exception_with_traceback ConversionError),
      [Clear, SetStatus 500,
       Write (WStr ''<html><body>Internal Server Error</body></html>''), Finish]) \<and>
   get user_or_first_kw user_or_first = Inr user_or_first_op \<and>
   is_match \<lparr>req_method = ''GET'', req_path = ''/users/users'', req_arguments = []\<rparr>
     user_or_first_op \<and>
   find_params_value_of_url (op_service_name user_or_first_op) ''/users/users'' = [] \<and>
   length (op_service_params user_or_first_op) = 1 \<and>
   call user_or_first_op [] = Inr (PDict [(''id'', PStr ''1'')]) \<and>
   exe convert [user_or_first_op]
     \<lparr>req_method = ''GET'', req_path = ''/users/users'', req_arguments = []\<rparr> ''GET'' =
     (Inr (),
      [Call ''user_or_first'' [], SetHeader ''Content-Type'' ''application/json'',
       Write (WDict [(''id'', PStr ''1'')]), Finish])"
proof -
  have "is_match \<lparr>req_method = ''GET'', req_path = ''/users/users/xyz'', req_arguments = []\<rparr>
     get_pair_op"
    by code_simp
  moreover have
    "find_params_value_of_url (op_service_name get_pair_op) ''/users/users/xyz'' =
       [Some ''xyz'']"
    by code_simp
  moreover have "p_values_of convert
     \<lparr>req_method = ''GET'', req_path = ''/users/users/xyz'', req_arguments = []\<rparr>
     get_pair_op = Inl ConversionError"
    by code_simp
  moreover have "exe convert [get_pair_op]
     \<lparr>req_method = ''GET'', req_path = ''/users/users/xyz'', req_arguments = []\<rparr> ''GET'' =
     (Inl (Exception_with_traceback ConversionError),
      [Clear, SetStatus 500,
       Write (WStr ''<html><body>Internal Server Error</body></html>''), Finish])"
    by code_simp
  moreover have
    "is_match \<lparr>req_method = ''GET'', req_path = ''/users/users'', req_arguments = []\<rparr>
     user_or_first_op"
    by code_simp
  moreover have
    "find_params_value_of_url (op_service_name user_or_first_op) ''/users/users'' = []"
    by code_simp
  moreover have "call user_or_first_op [] = Inr (PDict [(''id'', PStr ''1'')])"
    by code_simp
  moreover have "exe convert [user_or_first_op]
     \<lparr>req_method = ''GET'', req_path = ''/users/users'', req_arguments = []\<rparr> ''GET'' =
     (Inr (),
      [Call ''user_or_first'' [], SetHeader ''Content-Type'' ''application/json'',
       Write (WDict [(''id'', PStr ''1'')]), Finish])"
    by code_simp
  ultimately show ?thesis
    by (simp add: config_get_pair config_user_or_first get_pair_op_def user_or_first_op_def)
qed

end
